theory Spec2Isabelle
  imports Complex_Main
begin

section \<open>JavaScript strings and numbers\<close>

text \<open>
  Strings are lists of characters. Every pattern and keyword of the scripts is ASCII, and
  the string functions below are those of the JavaScript runtime on ASCII text; the case
  conversions leave every other character alone.
\<close>

definition is_upper :: "char \<Rightarrow> bool" where
  "is_upper c = (65 \<le> (of_char c :: nat) \<and> (of_char c :: nat) \<le> 90)"

definition is_lower :: "char \<Rightarrow> bool" where
  "is_lower c = (97 \<le> (of_char c :: nat) \<and> (of_char c :: nat) \<le> 122)"

definition is_digit :: "char \<Rightarrow> bool" where
  "is_digit c = (48 \<le> (of_char c :: nat) \<and> (of_char c :: nat) \<le> 57)"

definition is_space :: "char \<Rightarrow> bool" where
  \<comment> \<open>white space and line terminators: what \<open>trim\<close> strips and \<open>\\s\<close> matches\<close>
  "is_space c = ((of_char c :: nat) \<in> {9, 10, 11, 12, 13, 32, 160})"

definition lower_char :: "char \<Rightarrow> char" where
  "lower_char c = (if is_upper c then char_of ((of_char c :: nat) + 32) else c)"

definition upper_char :: "char \<Rightarrow> char" where
  "upper_char c = (if is_lower c then char_of ((of_char c :: nat) - 32) else c)"

definition toLowerCase :: "string \<Rightarrow> string" where
  "toLowerCase s = map lower_char s"

definition toUpperCase :: "string \<Rightarrow> string" where
  "toUpperCase s = map upper_char s"

definition trim :: "string \<Rightarrow> string" where
  "trim s = rev (dropWhile is_space (rev (dropWhile is_space s)))"

fun startsWith :: "string \<Rightarrow> string \<Rightarrow> bool" where
  "startsWith s [] = True"
| "startsWith [] (p # ps) = False"
| "startsWith (c # cs) (p # ps) = (c = p \<and> startsWith cs ps)"

definition endsWith :: "string \<Rightarrow> string \<Rightarrow> bool" where
  "endsWith s p = startsWith (rev s) (rev p)"

fun includes_str :: "string \<Rightarrow> string \<Rightarrow> bool" where
  \<comment> \<open>\<open>s.includes(p)\<close>: \<open>p\<close> occurs in \<open>s\<close> as a contiguous substring\<close>
  "includes_str [] p = (p = [])"
| "includes_str (c # cs) p = (startsWith (c # cs) p \<or> includes_str cs p)"

fun split_on :: "char \<Rightarrow> string \<Rightarrow> string list" where
  \<comment> \<open>\<open>s.split(sep)\<close> for a one-character separator: always at least one piece\<close>
  "split_on sep [] = [[]]"
| "split_on sep (c # cs) =
     (if c = sep then [] # split_on sep cs
      else (case split_on sep cs of [] \<Rightarrow> [[c]] | p # ps \<Rightarrow> (c # p) # ps))"

text \<open>
  A JavaScript number is NaN, an infinity or a finite value. Converting a string to a
  number (\<open>Number(s)\<close>, the conversion behind \<open>isNaN(s)\<close> and \<open>s < 0\<close>),
  \<open>parseFloat\<close> and \<open>Date.parse\<close> are functions of the host, not of the scripts:
  the model takes them as the fields of a \<open>js_host\<close> record.
\<close>

datatype jsnum = NaN | NegInf | Fin rat | PosInf

fun js_lt :: "jsnum \<Rightarrow> jsnum \<Rightarrow> bool" where
  \<comment> \<open>\<open>a < b\<close> on numbers: false as soon as one side is NaN\<close>
  "js_lt NaN _ = False"
| "js_lt _ NaN = False"
| "js_lt _ NegInf = False"
| "js_lt NegInf _ = True"
| "js_lt PosInf _ = False"
| "js_lt (Fin x) PosInf = True"
| "js_lt (Fin x) (Fin y) = (x < y)"

definition js_gt :: "jsnum \<Rightarrow> jsnum \<Rightarrow> bool" where
  "js_gt a b = js_lt b a"

definition js_ge :: "jsnum \<Rightarrow> jsnum \<Rightarrow> bool" where
  \<comment> \<open>\<open>a >= b\<close>: not \<open>a < b\<close>, unless one side is NaN\<close>
  "js_ge a b = (a \<noteq> NaN \<and> b \<noteq> NaN \<and> \<not> js_lt a b)"

definition isNaN :: "jsnum \<Rightarrow> bool" where
  "isNaN n = (n = NaN)"

record js_host =
  to_number :: "string \<Rightarrow> jsnum"          \<comment> \<open>\<open>Number(s)\<close>\<close>
  parse_float :: "string \<Rightarrow> jsnum"        \<comment> \<open>\<open>parseFloat(s)\<close>\<close>
  date_parse :: "string \<Rightarrow> int option"    \<comment> \<open>\<open>Date.parse(s)\<close> in ms, \<open>None\<close> for NaN\<close>
  iso_date :: "int \<Rightarrow> string"              \<comment> \<open>\<open>new Date(t).toISOString().split('T')[0]\<close>\<close>
  today :: int                              \<comment> \<open>local midnight of the current day, in ms\<close>

section \<open>Error manager: categorizeError (error-manager.js)\<close>

datatype category =
  NETWORK | API | VALIDATION | AUTH | PERMISSION | DATA | UI | SYSTEM | UNKNOWN

text \<open>
  The \<open>code\<close> of a standardized error is whatever the thrown value carried: nothing,
  a number (an HTTP status) or a string (\<open>'NETWORK_ERROR'\<close>, a database code).
\<close>

datatype js_code = CodeNull | CodeUndefined | CodeNum jsnum | CodeStr string

record error_obj =
  message :: string
  code :: js_code
  etype :: string

fun code_number :: "js_host \<Rightarrow> js_code \<Rightarrow> jsnum" where
  \<comment> \<open>the number a relational comparison reads from \<open>code\<close>\<close>
  "code_number h CodeNull = Fin 0"
| "code_number h CodeUndefined = NaN"
| "code_number h (CodeNum n) = n"
| "code_number h (CodeStr s) = to_number h s"

definition categorizeError :: "js_host \<Rightarrow> error_obj \<Rightarrow> category" where
  "categorizeError h errorObj =
    (let message = toLowerCase (message errorObj);
         code = code errorObj;
         type = etype errorObj
     in
     if type = ''NetworkError'' \<or> includes_str message ''network'' \<or>
        includes_str message ''connection'' \<or> includes_str message ''timeout'' \<or>
        code = CodeStr ''NETWORK_ERROR''
     then NETWORK
     else if (js_ge (code_number h code) (Fin 400) \<and> js_lt (code_number h code) (Fin 600)) \<or>
        includes_str message ''api'' \<or> includes_str message ''server'' \<or> type = ''HTTPError''
     then
       (if code = CodeNum (Fin 401) \<or> code = CodeNum (Fin 403) \<or>
           includes_str message ''unauthorized'' \<or> includes_str message ''forbidden''
        then AUTH
        else if code = CodeNum (Fin 403) \<or> includes_str message ''permission'' \<or>
           includes_str message ''access denied''
        then PERMISSION
        else API)
     else if code = CodeNum (Fin 400) \<or> includes_str message ''validation'' \<or>
        includes_str message ''invalid'' \<or> includes_str message ''required'' \<or>
        type = ''ValidationError''
     then VALIDATION
     else if includes_str message ''data'' \<or> includes_str message ''parse'' \<or>
        includes_str message ''json'' \<or> type = ''SyntaxError'' \<or> type = ''DataError''
     then DATA
     else if includes_str message ''element'' \<or> includes_str message ''dom'' \<or>
        includes_str message ''render'' \<or> type = ''DOMException''
     then UI
     else if includes_str message ''auth'' \<or> includes_str message ''login'' \<or>
        includes_str message ''token'' \<or> includes_str message ''session''
     then AUTH
     else UNKNOWN)"

section \<open>Patient identifiers (form-validator.js, utils.js)\<close>

definition alnum_upper :: "char \<Rightarrow> bool" where
  \<comment> \<open>the class \<open>[A-Z0-9]\<close>\<close>
  "alnum_upper c = (is_upper c \<or> is_digit c)"

definition alnum_upper_hyphen :: "char \<Rightarrow> bool" where
  \<comment> \<open>the class \<open>[A-Z0-9\\-]\<close>\<close>
  "alnum_upper_hyphen c = (is_upper c \<or> is_digit c \<or> c = CHR ''-'')"

definition class_between :: "(char \<Rightarrow> bool) \<Rightarrow> nat \<Rightarrow> nat \<Rightarrow> string \<Rightarrow> bool" where
  \<comment> \<open>\<open>/^[cls]{lo,hi}$/.test(v)\<close>: the whole of \<open>v\<close> is \<open>lo\<close> to \<open>hi\<close> characters of the class\<close>
  "class_between cls lo hi v = (lo \<le> length v \<and> length v \<le> hi \<and> list_all cls v)"

definition patient_pattern :: "string \<Rightarrow> bool" where
  \<comment> \<open>\<open>/^[A-Z0-9]{6,12}$/.test(v)\<close>\<close>
  "patient_pattern v = class_between alnum_upper 6 12 v"

definition sample_pattern :: "string \<Rightarrow> bool" where
  \<comment> \<open>\<open>/^[A-Z0-9\\-]{8,16}$/.test(v)\<close>\<close>
  "sample_pattern v = class_between alnum_upper_hyphen 8 16 v"

definition patientId_test :: "string \<Rightarrow> bool" where
  \<comment> \<open>\<open>medicalRules.patientId.test\<close>: \<open>/^[A-Z]{2}\\d{6}$/.test(value)\<close>\<close>
  "patientId_test v =
     (length v = 8 \<and> list_all is_upper (take 2 v) \<and> list_all is_digit (drop 2 v))"

definition patientId_message :: string where
  "patientId_message = ''Patient ID must be 2 letters followed by 6 digits (e.g., AB123456)''"

record medical_id_result =
  mid_isValid :: bool
  mid_formatted :: "string option"
  mid_errors :: "string list"

definition check_medical_id ::
  "(string \<Rightarrow> bool) \<Rightarrow> string \<Rightarrow> string \<Rightarrow> string \<Rightarrow> medical_id_result" where
  \<comment> \<open>one \<open>case\<close> of the switch in \<open>validateMedicalId\<close>\<close>
  "check_medical_id pattern msg idv cleanId =
     (if \<not> pattern cleanId
      then \<lparr>mid_isValid = False, mid_formatted = Some idv, mid_errors = [msg]\<rparr>
      else \<lparr>mid_isValid = True, mid_formatted = Some cleanId, mid_errors = []\<rparr>)"

definition validateMedicalId :: "string option \<Rightarrow> string \<Rightarrow> medical_id_result" where
  \<comment> \<open>\<open>Utils.String.validateMedicalId(id, type)\<close>; \<open>None\<close> is an \<open>id\<close> that is not a string\<close>
  \<open>validateMedicalId idv type =
     (case idv of
        None \<Rightarrow> \<lparr>mid_isValid = False, mid_formatted = None, mid_errors = [''ID is required'']\<rparr>
      | Some i \<Rightarrow>
          if i = [] then
            \<lparr>mid_isValid = False, mid_formatted = Some i, mid_errors = [''ID is required'']\<rparr>
          else
            (let cleanId = toUpperCase (trim i) in
             if type = ''patient'' then
               check_medical_id patient_pattern
                 ''Patient ID must be 6-12 characters, letters and numbers only'' i cleanId
             else if type = ''sample'' then
               check_medical_id sample_pattern
                 ''Sample ID must be 8-16 characters, letters, numbers, and hyphens only'' i cleanId
             else if type = ''lab'' then
               check_medical_id
                 (\<lambda>v. startsWith v ''LAB'' \<and> class_between alnum_upper 5 10 (drop 3 v))
                 ''Lab ID must start with "LAB" followed by 5-10 alphanumeric characters'' i cleanId
             else
               check_medical_id (class_between alnum_upper_hyphen 3 20)
                 ''ID must be 3-20 characters, letters, numbers, and hyphens only'' i cleanId))\<close>

definition example_host :: js_host where
  \<comment> \<open>the host as far as the examples consult it: \<open>Number\<close> and \<open>parseFloat\<close> on
     the literals \<open>-5\<close> and \<open>5\<close>, \<open>Date.parse\<close> on the ISO date 2024-01-01\<close>
  "example_host =
     \<lparr>to_number = (\<lambda>s. if s = ''-5'' then Fin (-5) else if s = ''5'' then Fin 5 else NaN),
      parse_float = (\<lambda>s. if s = ''-5'' then Fin (-5) else if s = ''5'' then Fin 5 else NaN),
      date_parse = (\<lambda>s. if s = ''2024-01-01'' then Some 1704067200000 else None),
      iso_date = (\<lambda>t. if t = 1704067200000 then ''2024-01-01'' else ''1970-01-01''),
      today = 1793577600000\<rparr>"

section \<open>Form fields and their error display\<close>

datatype js_error = Error string | TypeError string | ReferenceError string | DOMException string

record js_file =
  file_name :: string
  file_size :: nat
  file_type :: string
  file_text :: string    \<comment> \<open>what \<open>FileReader.readAsText\<close> reads\<close>

text \<open>
  A form control (\<open>input\<close>, \<open>select\<close> or \<open>textarea\<close>) with the attributes and
  properties the scripts read or write. A \<open>select\<close> is a single-choice one; its value
  is the value of the selected option.
\<close>

record control =
  f_tag :: string                    \<comment> \<open>\<open>tagName\<close>\<close>
  f_type :: string                   \<comment> \<open>\<open>type\<close>\<close>
  f_name :: string                   \<comment> \<open>\<open>name\<close>, empty when absent\<close>
  f_id :: string                     \<comment> \<open>\<open>id\<close>, empty when absent\<close>
  f_value :: string                  \<comment> \<open>\<open>value\<close>\<close>
  f_required :: bool                 \<comment> \<open>\<open>hasAttribute('required')\<close>\<close>
  f_data_required :: "string option" \<comment> \<open>\<open>dataset.required\<close>\<close>
  f_data_rules :: "string option"    \<comment> \<open>\<open>dataset.rules\<close>\<close>
  f_allow_future :: "string option"  \<comment> \<open>\<open>dataset.allowFuture\<close>\<close>
  f_checked :: bool                  \<comment> \<open>\<open>checked\<close>\<close>
  f_disabled :: bool                 \<comment> \<open>\<open>disabled\<close>\<close>
  f_files :: "js_file list"             \<comment> \<open>\<open>files\<close>\<close>
  f_options :: "string list"         \<comment> \<open>the option values of a \<open>select\<close>\<close>
  f_label :: "string option"         \<comment> \<open>text of the first \<open>label[for=id]\<close> of the document\<close>
  f_placeholder :: string            \<comment> \<open>\<open>placeholder\<close>\<close>
  f_default_value :: string          \<comment> \<open>the value \<open>form.reset()\<close> restores\<close>
  f_default_checked :: bool          \<comment> \<open>the checkedness \<open>form.reset()\<close> restores\<close>
  f_class_invalid :: bool            \<comment> \<open>\<open>classList.contains('is-invalid')\<close>\<close>
  f_class_valid :: bool              \<comment> \<open>\<open>classList.contains('is-valid')\<close>\<close>

text \<open>
  The validation library looks at one control at a time. A field is a control together
  with the \<open>.invalid-feedback\<close> nodes found under its parent node, in document order:
  \<open>parentNode.querySelector('.invalid-feedback')\<close> is the first of them,
  \<open>parentNode.appendChild\<close> adds one after the last. The form handler walks all the
  controls of a form, whose parent nodes may be shared or nested; there the nodes are kept
  in the layout of the form.
\<close>

record field = control +
  f_feedback :: "string list"        \<comment> \<open>texts of the \<open>.invalid-feedback\<close> nodes under the parent\<close>

section \<open>Form validation library (form-validator.js)\<close>

subsection \<open>Rule registry\<close>

definition email_pattern :: "string \<Rightarrow> bool" where
  \<comment> \<open>\<open>/^[^\\s@]+@[^\\s@]+\\.[^\\s@]+$/.test(s)\<close>: no white space, exactly one \<open>@\<close> with
     something before it, and after it a dot that is neither first nor last\<close>
  "email_pattern s =
     (list_all (\<lambda>c. \<not> is_space c) s \<and> count_list s (CHR ''@'') = 1 \<and>
      (let local = takeWhile (\<lambda>c. c \<noteq> CHR ''@'') s;
           dom = drop 1 (dropWhile (\<lambda>c. c \<noteq> CHR ''@'') s)
       in local \<noteq> [] \<and> list_ex (\<lambda>i. dom ! i = CHR ''.'') [1..<length dom - 1]))"

definition phone_rule_pattern :: "string \<Rightarrow> bool" where
  \<comment> \<open>\<open>/^[\\+]?[1-9][\\d]{0,15}$/.test(value.replace(/[\\s\\-\\(\\)]/g, ''))\<close>\<close>
  "phone_rule_pattern s =
     (let t = filter (\<lambda>c. \<not> (is_space c \<or> c = CHR ''-'' \<or> c = CHR ''('' \<or> c = CHR '')'')) s;
          u = (case t of [] \<Rightarrow> [] | c # r \<Rightarrow> if c = CHR ''+'' then r else t)
      in case u of
           [] \<Rightarrow> False
         | d # r \<Rightarrow> is_digit d \<and> d \<noteq> CHR ''0'' \<and> length r \<le> 15 \<and> list_all is_digit r)"

definition concentration_pattern :: "string \<Rightarrow> bool" where
  \<comment> \<open>\<open>/^\\d+(\\.\\d+)?\\s*(mg|g|ml|l|%|\<mu>g|ng)$/i.test(s)\<close> on ASCII text\<close>
  "concentration_pattern s =
     (let unit_ok = (\<lambda>r. toLowerCase (dropWhile is_space r) \<in>
                          set [''mg'', ''g'', ''ml'', ''l'', ''%'', ''ng'']);
          ds = takeWhile is_digit s;
          r1 = dropWhile is_digit s
      in ds \<noteq> [] \<and>
         (unit_ok r1 \<or>
          (case r1 of
             [] \<Rightarrow> False
           | c # r2 \<Rightarrow> c = CHR ''.'' \<and> takeWhile is_digit r2 \<noteq> [] \<and>
                        unit_ok (dropWhile is_digit r2))))"

definition js_le :: "jsnum \<Rightarrow> jsnum \<Rightarrow> bool" where
  \<comment> \<open>\<open>a <= b\<close>\<close>
  "js_le a b = (a \<noteq> NaN \<and> b \<noteq> NaN \<and> \<not> js_lt b a)"

definition is_finite :: "jsnum \<Rightarrow> bool" where
  \<comment> \<open>\<open>!isNaN(n) && isFinite(n)\<close>\<close>
  "is_finite n = (case n of Fin x \<Rightarrow> True | _ \<Rightarrow> False)"

definition is_integer :: "jsnum \<Rightarrow> bool" where
  \<comment> \<open>\<open>Number.isInteger(n)\<close>\<close>
  "is_integer n = (case n of Fin x \<Rightarrow> x = of_int \<lfloor>x\<rfloor> | _ \<Rightarrow> False)"

text \<open>
  A registry entry is a rule object \<open>{test, message}\<close> or, for the parameterized rules,
  a function from the parameter to a rule object. A test returns a boolean or throws.
  Rule names are taken not to be names of members of \<open>Object.prototype\<close>.
\<close>

datatype rule_entry =
  RuleObject "string \<Rightarrow> js_error + bool" string
| RuleFactory "string \<Rightarrow> (string \<Rightarrow> js_error + bool) \<times> string"

definition rules :: "js_host \<Rightarrow> string \<Rightarrow> rule_entry option" where
  \<comment> \<open>\<open>FormValidator.rules[name]\<close>, own properties\<close>
  "rules h name =
     (if name = ''required'' then
        Some (RuleObject (\<lambda>v. Inr (trim v \<noteq> [])) ''This field is required'')
      else if name = ''email'' then
        Some (RuleObject (\<lambda>v. Inr (email_pattern v)) ''Please enter a valid email address'')
      else if name = ''phone'' then
        Some (RuleObject (\<lambda>v. Inr (phone_rule_pattern v)) ''Please enter a valid phone number'')
      else if name = ''number'' then
        Some (RuleObject (\<lambda>v. Inr (is_finite (to_number h v))) ''Please enter a valid number'')
      else if name = ''positiveNumber'' then
        Some (RuleObject
          (\<lambda>v. Inr (is_finite (to_number h v) \<and> js_gt (parse_float h v) (Fin 0)))
          ''Please enter a positive number'')
      else if name = ''integer'' then
        Some (RuleObject (\<lambda>v. Inr (is_integer (to_number h v))) ''Please enter a whole number'')
      else if name = ''date'' then
        Some (RuleObject (\<lambda>v. Inr (date_parse h v \<noteq> None)) ''Please enter a valid date'')
      else if name = ''minLength'' then
        Some (RuleFactory (\<lambda>min.
          (\<lambda>v. Inr (js_ge (Fin (of_nat (length v))) (to_number h min)),
           ''Must be at least '' @ min @ '' characters long'')))
      else if name = ''maxLength'' then
        Some (RuleFactory (\<lambda>max.
          (\<lambda>v. Inr (js_le (Fin (of_nat (length v))) (to_number h max)),
           ''Must not exceed '' @ max @ '' characters'')))
      else if name = ''pattern'' then
        \<comment> \<open>the parameter arrives as a string, which has no \<open>test\<close> method\<close>
        Some (RuleFactory (\<lambda>regex.
          (\<lambda>v. Inl (TypeError ''regex.test is not a function''), ''Invalid format'')))
      else None)"

definition medicalRules :: "string \<Rightarrow> rule_entry option" where
  \<comment> \<open>\<open>FormValidator.medicalRules[name]\<close>, own properties\<close>
  "medicalRules name =
     (if name = ''patientId'' then
        Some (RuleObject (\<lambda>v. Inr (patientId_test v)) patientId_message)
      else if name = ''drugCode'' then
        Some (RuleObject (\<lambda>v. Inr (class_between alnum_upper 3 10 v))
          ''Drug code must be 3-10 alphanumeric characters'')
      else if name = ''batchNumber'' then
        Some (RuleObject (\<lambda>v. Inr (class_between alnum_upper_hyphen 4 20 v))
          ''Batch number must be 4-20 alphanumeric characters with optional hyphens'')
      else if name = ''concentration'' then
        Some (RuleObject (\<lambda>v. Inr (concentration_pattern v))
          ''Enter concentration with unit (e.g., 500mg, 2.5ml, 10%)'')
      else None)"

definition getRuleConfig :: "js_host \<Rightarrow> string \<Rightarrow> rule_entry option" where
  "getRuleConfig h rule =
     (case rules h rule of
        Some r \<Rightarrow> Some r
      | None \<Rightarrow>
         (case medicalRules rule of
            Some r \<Rightarrow> Some r
          | None \<Rightarrow>
             if CHR '':'' \<in> set rule then
               (case split_on (CHR '':'') rule of
                  ruleName # param # _ \<Rightarrow>
                    (case rules h ruleName of
                       Some (RuleFactory mk) \<Rightarrow> Some (RuleObject (fst (mk param)) (snd (mk param)))
                     | _ \<Rightarrow> None)
                | _ \<Rightarrow> None)
             else None))"

fun rule_test :: "rule_entry \<Rightarrow> string \<Rightarrow> js_error + bool" where
  \<comment> \<open>\<open>ruleConfig.test(value)\<close>: a bare factory has no \<open>test\<close>\<close>
  "rule_test (RuleObject t m) v = t v"
| "rule_test (RuleFactory mk) v = Inl (TypeError ''ruleConfig.test is not a function'')"

fun rule_message :: "rule_entry \<Rightarrow> string" where
  "rule_message (RuleObject t m) = m"
| "rule_message (RuleFactory mk) = []"

subsection \<open>Field validation\<close>

definition getFieldRules :: "field \<Rightarrow> string list" where
  "getFieldRules field =
     (if f_required field \<or> f_data_required field = Some ''true'' then [''required''] else []) @
     (if f_type field = ''email'' then [''email''] else []) @
     (if f_type field = ''tel'' then [''phone''] else []) @
     (if f_type field = ''number'' then [''number''] else []) @
     (case f_data_rules field of
        None \<Rightarrow> []
      | Some r \<Rightarrow> if r = [] then [] else split_on (CHR '','') r)"

definition FormValidator_clearFieldError :: "field \<Rightarrow> field" where
  "FormValidator_clearFieldError field =
     field\<lparr>f_class_invalid := False, f_class_valid := False,
           f_feedback := (case f_feedback field of [] \<Rightarrow> [] | existing # rest \<Rightarrow> rest)\<rparr>"

definition FormValidator_showFieldError :: "field \<Rightarrow> string \<Rightarrow> field" where
  "FormValidator_showFieldError field msg =
     (let cleared = FormValidator_clearFieldError field
      in cleared\<lparr>f_class_invalid := True, f_class_valid := False,
                 f_feedback := f_feedback cleared @ [msg]\<rparr>)"

definition showFieldSuccess :: "field \<Rightarrow> field" where
  "showFieldSuccess field =
     (let cleared = FormValidator_clearFieldError field
      in cleared\<lparr>f_class_valid := True, f_class_invalid := False\<rparr>)"

fun apply_rules :: "js_host \<Rightarrow> string \<Rightarrow> string list \<Rightarrow> js_error + string list" where
  \<comment> \<open>the \<open>rules.forEach\<close> of \<open>validateField\<close>: the messages of the failing rules in
     order, or the first exception a test throws\<close>
  "apply_rules h v [] = Inr []"
| "apply_rules h v (rule # rest) =
     (case getRuleConfig h rule of
        None \<Rightarrow> apply_rules h v rest
      | Some ruleConfig \<Rightarrow>
         (case rule_test ruleConfig v of
            Inl e \<Rightarrow> Inl e
          | Inr ok \<Rightarrow>
             (case apply_rules h v rest of
                Inl e \<Rightarrow> Inl e
              | Inr errs \<Rightarrow> Inr (if ok then errs else rule_message ruleConfig # errs))))"

definition FormValidator_validateField :: "js_host \<Rightarrow> field \<Rightarrow> (js_error + bool) \<times> field" where
  \<comment> \<open>the returned boolean (or the exception thrown) and the field with its new error display\<close>
  "FormValidator_validateField h field =
     (let v = trim (f_value field);
          rs = getFieldRules field
      in if v = [] \<and> ''required'' \<notin> set rs then (Inr True, FormValidator_clearFieldError field)
         else
           (case apply_rules h v rs of
              Inl e \<Rightarrow> (Inl e, field)
            | Inr [] \<Rightarrow> (Inr True, showFieldSuccess field)
            | Inr (e # es) \<Rightarrow> (Inr False, FormValidator_showFieldError field e)))"


section \<open>Form handler (FormHandler)\<close>

subsection \<open>Field validation\<close>

record check_result =
  isValid :: bool
  errors :: "string list"

record validation_result = check_result +
  warnings :: "string list"

definition config_validation_required :: "string list" where
  \<comment> \<open>\<open>config.validation.required\<close>\<close>
  "config_validation_required = [''patientId'', ''sampleId'', ''collectionDate'']"

definition config_maxFiles :: nat where
  "config_maxFiles = 5"

definition config_maxSize :: nat where
  "config_maxSize = 10 * 1024 * 1024"

definition config_allowedTypes :: "string list" where
  "config_allowedTypes =
     [''image/jpeg'', ''image/png'', ''image/gif'', ''application/pdf'', ''text/csv'']"

definition config_storagePrefix :: string where
  "config_storagePrefix = ''meditrack_draft_''"

definition isValidEmail :: "string \<Rightarrow> bool" where
  "isValidEmail email = email_pattern email"

definition isValidPhone :: "string \<Rightarrow> bool" where
  \<comment> \<open>\<open>/^[\\+]?[\\d\\s\\-\\(\\)]{10,}$/.test(phone)\<close>\<close>
  "isValidPhone phone =
     (let body = (case phone of [] \<Rightarrow> [] | c # r \<Rightarrow> if c = CHR ''+'' then r else phone)
      in 10 \<le> length body \<and>
         list_all (\<lambda>c. is_digit c \<or> is_space c \<or> c = CHR ''-'' \<or> c = CHR ''('' \<or> c = CHR '')'')
           body)"

definition isValidDate :: "js_host \<Rightarrow> string \<Rightarrow> bool" where
  \<comment> \<open>the date parses and prints back, in ISO form, as the string itself\<close>
  "isValidDate h dateString =
     (case date_parse h dateString of None \<Rightarrow> False | Some t \<Rightarrow> dateString = iso_date h t)"

definition digit_upto :: "nat \<Rightarrow> char \<Rightarrow> bool" where
  \<comment> \<open>the class \<open>[0-k]\<close>\<close>
  "digit_upto k c = (48 \<le> (of_char c :: nat) \<and> (of_char c :: nat) \<le> 48 + k)"

definition isValidTime :: "string \<Rightarrow> bool" where
  \<comment> \<open>\<open>/^([01]?[0-9]|2[0-3]):[0-5][0-9]$/.test(timeString)\<close>\<close>
  "isValidTime timeString =
     (case timeString of
        [h1, c, m1, m2] \<Rightarrow> is_digit h1 \<and> c = CHR '':'' \<and> digit_upto 5 m1 \<and> is_digit m2
      | [h1, h2, c, m1, m2] \<Rightarrow>
          ((digit_upto 1 h1 \<and> is_digit h2) \<or> (h1 = CHR ''2'' \<and> digit_upto 3 h2)) \<and>
          c = CHR '':'' \<and> digit_upto 5 m1 \<and> is_digit m2
      | _ \<Rightarrow> False)"

definition isFutureDate :: "js_host \<Rightarrow> string \<Rightarrow> bool" where
  "isFutureDate h dateString =
     (case date_parse h dateString of None \<Rightarrow> False | Some t \<Rightarrow> t > today h)"

definition isPotenitallyDangerous :: "string \<Rightarrow> bool" where
  "isPotenitallyDangerous filename =
     list_ex (\<lambda>ext. endsWith (toLowerCase filename) ext)
       [''.exe'', ''.bat'', ''.cmd'', ''.scr'', ''.vbs'', ''.js'', ''.jar'']"

definition getFieldLabel :: "'a control_scheme \<Rightarrow> string" where
  \<comment> \<open>\<open>label?.textContent?.trim() || field.name || field.placeholder || 'Field'\<close>\<close>
  "getFieldLabel field =
     (let text = (case f_label field of None \<Rightarrow> [] | Some t \<Rightarrow> trim t)
      in if text \<noteq> [] then text
         else if f_name field \<noteq> [] then f_name field
         else if f_placeholder field \<noteq> [] then f_placeholder field
         else ''Field'')"

definition check_file :: "js_file \<Rightarrow> validation_result \<Rightarrow> validation_result" where
  \<comment> \<open>the body of the loop over the files; \<open>formatFileSize(maxSize)\<close> is \<open>10 MB\<close>\<close>
  \<open>check_file file result =
     (let r1 = (if file_size file > config_maxSize
                then result\<lparr>isValid := False,
                       errors := errors result @
                         [''File "'' @ file_name file @ ''" is too large. Maximum size is 10 MB'']\<rparr>
                else result);
          r2 = (if file_type file \<notin> set config_allowedTypes
                then r1\<lparr>isValid := False,
                       errors := errors r1 @
                         [''File "'' @ file_name file @ ''" has an unsupported format'']\<rparr>
                else r1)
      in if isPotenitallyDangerous (file_name file)
         then r2\<lparr>warnings := warnings r2 @
                [''File "'' @ file_name file @ ''" has a potentially dangerous extension'']\<rparr>
         else r2)\<close>

definition validateFileField :: "'a control_scheme \<Rightarrow> validation_result" where
  "validateFileField fileField =
     (let result = \<lparr>isValid = True, errors = [], warnings = []\<rparr>;
          files = f_files fileField
      in if files = [] then result
         else if length files > config_maxFiles then
           result\<lparr>isValid := False, errors := [''Maximum 5 files allowed'']\<rparr>
         else fold check_file files result)"

definition isRequired :: "'a control_scheme \<Rightarrow> bool" where
  \<comment> \<open>\<open>field.hasAttribute('required') || config.validation.required.includes(fieldName)\<close>\<close>
  "isRequired field =
     (let fieldName = (if f_name field \<noteq> [] then f_name field else f_id field)
      in f_required field \<or> fieldName \<in> set config_validation_required)"

definition add_error :: "string \<Rightarrow> validation_result \<Rightarrow> validation_result" where
  \<comment> \<open>\<open>result.errors.push(msg); result.isValid = false\<close>\<close>
  "add_error msg result = result\<lparr>isValid := False, errors := errors result @ [msg]\<rparr>"

definition add_warning :: "string \<Rightarrow> validation_result \<Rightarrow> validation_result" where
  "add_warning msg result = result\<lparr>warnings := warnings result @ [msg]\<rparr>"

definition type_validation ::
  "js_host \<Rightarrow> 'a control_scheme \<Rightarrow> string \<Rightarrow> validation_result \<Rightarrow> validation_result" where
  \<comment> \<open>the \<open>switch (fieldType)\<close> of \<open>validateField\<close>\<close>
  "type_validation h field v result =
     (let fieldType = f_type field in
      if fieldType = ''email'' then
        (if \<not> isValidEmail v then add_error ''Please enter a valid email address'' result
         else result)
      else if fieldType = ''tel'' then
        (if \<not> isValidPhone v then add_error ''Please enter a valid phone number'' result
         else result)
      else if fieldType = ''number'' then
        (if isNaN (to_number h v) \<or> js_lt (to_number h v) (Fin 0)
         then add_error ''Please enter a valid positive number'' result
         else result)
      else if fieldType = ''date'' then
        (if \<not> isValidDate h v then add_error ''Please enter a valid date'' result
         else if isFutureDate h v \<and> f_allow_future field \<in> {None, Some []}
         then add_warning ''Date is in the future'' result
         else result)
      else if fieldType = ''time'' then
        (if \<not> isValidTime v then add_error ''Please enter a valid time'' result
         else result)
      else if fieldType = ''file'' then
        (let fileResult = validateFileField field
         in result\<lparr>isValid := isValid fileResult,
                  errors := errors result @ errors fileResult,
                  warnings := warnings result @ warnings fileResult\<rparr>)
      else result)"

definition name_validation ::
  "js_host \<Rightarrow> 'a control_scheme \<Rightarrow> string \<Rightarrow> validation_result \<Rightarrow> validation_result" where
  \<comment> \<open>the field-specific checks that follow the switch\<close>
  "name_validation h field v result =
     (let fieldName = (if f_name field \<noteq> [] then f_name field else f_id field);
          r1 = (if fieldName = ''patientId'' \<and> \<not> patient_pattern v
                then add_error ''Patient ID must be 6-12 characters, letters and numbers only'' result
                else result);
          r2 = (if fieldName = ''sampleId'' \<and> \<not> sample_pattern v
                then add_error
                  ''Sample ID must be 8-16 characters, letters, numbers, and hyphens only'' r1
                else r1)
      in if fieldName = ''temperature'' \<and>
            (js_lt (parse_float h v) (Fin (- 80)) \<or> js_gt (parse_float h v) (Fin 100))
         then add_warning ''Temperature seems unusual for medical samples'' r2
         else r2)"

definition FormHandler_validateField :: "js_host \<Rightarrow> 'a control_scheme \<Rightarrow> validation_result" where
  "FormHandler_validateField h field =
     (let result = \<lparr>isValid = True, errors = [], warnings = []\<rparr>;
          v = trim (f_value field)
      in if isRequired field \<and> v = [] then
           add_error (getFieldLabel field @ '' is required'') result
         else if v = [] then result
         else name_validation h field v (type_validation h field v result))"

definition example_field :: field where
  \<comment> \<open>an optional text input holding \<open>abc\<close>, annotated with the patient-id rule\<close>
  "example_field =
     \<lparr>f_tag = ''INPUT'', f_type = ''text'', f_name = ''ward'', f_id = ''ward'',
      f_value = ''abc'', f_required = False, f_data_required = None,
      f_data_rules = Some ''patientId'', f_allow_future = None, f_checked = False,
      f_disabled = False, f_files = [], f_options = [], f_label = None, f_placeholder = [],
      f_default_value = [], f_default_checked = False, f_class_invalid = False,
      f_class_valid = False, f_feedback = []\<rparr>"


subsection \<open>Values, backend and page state\<close>

text \<open>
  The values that travel in form data, drafts and payloads. \<open>VUndefined\<close> stands for
  \<open>undefined\<close> and \<open>null\<close>. An object is the list of its own properties in insertion
  order, which is the order \<open>Object.entries\<close> follows for names that are not array
  indices; field names are taken not to be array indices nor names of members of
  \<open>Object.prototype\<close>. A \<open>File\<close> is kept as such until the data is written to
  storage, where \<open>JSON.stringify\<close> turns it into an empty object.
\<close>

datatype jsval =
  VUndefined
| VBool bool
| VStr string
| VArr "jsval list"
| VObj "(string \<times> jsval) list"
| VFile js_file

fun truthy :: "jsval \<Rightarrow> bool" where
  "truthy VUndefined = False"
| "truthy (VBool b) = b"
| "truthy (VStr s) = (s \<noteq> [])"
| "truthy (VArr xs) = True"
| "truthy (VObj kvs) = True"
| "truthy (VFile f) = True"

definition get_prop :: "(string \<times> 'a) list \<Rightarrow> string \<Rightarrow> 'a option" where
  \<comment> \<open>\<open>obj[key]\<close> on an object written property by property: the last write wins\<close>
  "get_prop obj key = map_of (rev obj) key"

definition set_prop :: "string \<Rightarrow> 'a \<Rightarrow> (string \<times> 'a) list \<Rightarrow> (string \<times> 'a) list" where
  \<comment> \<open>\<open>obj[key] = v\<close>: an existing property keeps its place, a new one goes last\<close>
  "set_prop key v obj =
     (if key \<in> fst ` set obj then map (\<lambda>(k, x). if k = key then (k, v) else (k, x)) obj
      else obj @ [(key, v)])"

text \<open>
  \<open>ApiHelper.post\<close> belongs to the backend client. A call resolves to a response
  \<open>{success, data, error}\<close> or to nothing, or it rejects; the backend is a function of
  the number of earlier calls, the endpoint and the payload.
\<close>

datatype post_result =
  Response bool jsval "string option"  \<comment> \<open>\<open>success\<close>, \<open>data\<close>, \<open>error?.message\<close>\<close>
| NoResponse                           \<comment> \<open>the call resolves to \<open>undefined\<close>\<close>
| PostRejected js_error                \<comment> \<open>the call rejects\<close>

type_synonym payload = "(string \<times> jsval) list"

type_synonym backend = "nat \<Rightarrow> string \<Rightarrow> payload \<Rightarrow> post_result"

datatype upload_result =
  Uploaded jsval             \<comment> \<open>\<open>{success: true, data}\<close>\<close>
| UploadFailed string        \<comment> \<open>\<open>{success: false, error}\<close>\<close>
| UploadRejected js_error    \<comment> \<open>the promise rejects\<close>

record button =
  b_disabled :: bool
  b_text :: string            \<comment> \<open>\<open>textContent\<close>\<close>

text \<open>
  The elements under the form element, as far as the error display of the form handler
  goes, as a tree in document order. Its leaves are the controls of the form, each given
  by its position among them, and the elements of class \<open>invalid-feedback\<close>, each given
  by its text; any other element is a box with its children. Every control of the form
  is a leaf of the tree, once.
\<close>

datatype node =
  Ctl nat            \<comment> \<open>the control at this position of \<open>fm_fields\<close>\<close>
| Feedback string    \<comment> \<open>an element of class \<open>invalid-feedback\<close> and its \<open>textContent\<close>\<close>
| Box "node list"    \<comment> \<open>any other element and its children\<close>

record form =
  fm_id :: string                          \<comment> \<open>\<open>form.id\<close>, empty when absent\<close>
  fm_formType :: "string option"           \<comment> \<open>\<open>dataset.formType\<close>\<close>
  fm_clearOnSuccess :: "string option"     \<comment> \<open>\<open>dataset.clearOnSuccess\<close>\<close>
  fm_successRedirect :: "string option"    \<comment> \<open>\<open>dataset.successRedirect\<close>\<close>
  fm_fields :: "control list"              \<comment> \<open>the \<open>input\<close>, \<open>select\<close>, \<open>textarea\<close> descendants\<close>
  fm_layout :: "node list"                 \<comment> \<open>the children of the form element\<close>
  fm_button :: "button option"             \<comment> \<open>the first \<open>button[type="submit"]\<close>\<close>

record draft =
  d_timestamp :: int
  d_data :: payload
  d_url :: string

text \<open>
  The page: the form, local storage, and what the scripts have done to the outside world
  so far (backend calls, uploads, notifications, spinners). \<open>pg_globals\<close> holds the
  global bindings a free identifier resolves to.
\<close>

record page =
  pg_form :: form
  pg_path :: string                          \<comment> \<open>\<open>window.location.pathname\<close>\<close>
  pg_href :: string                          \<comment> \<open>\<open>window.location.href\<close>\<close>
  pg_userAgent :: string                     \<comment> \<open>\<open>navigator.userAgent\<close>\<close>
  pg_now :: int                              \<comment> \<open>\<open>Date.now()\<close>\<close>
  pg_now_iso :: string                       \<comment> \<open>\<open>new Date().toISOString()\<close>\<close>
  pg_storage :: "(string \<times> draft) list"      \<comment> \<open>\<open>localStorage\<close>, drafts by key\<close>
  pg_posts :: "(string \<times> payload) list"      \<comment> \<open>the calls of \<open>ApiHelper.post\<close>, oldest first\<close>
  pg_uploads :: "js_file list"               \<comment> \<open>the calls of \<open>uploadFile\<close>, oldest first\<close>
  pg_notifications :: "(string \<times> string) list" \<comment> \<open>kind and message, oldest first\<close>
  pg_spinners :: "string list"               \<comment> \<open>the ids in \<open>LoadingManager.activeLoaders\<close>\<close>
  pg_next_id :: nat                          \<comment> \<open>the next \<open>generateId()\<close>\<close>
  pg_focus :: "string option"                \<comment> \<open>name of the focused field, if any\<close>
  pg_redirect :: "string option"             \<comment> \<open>the redirect scheduled after success\<close>
  pg_receipts :: "string list"               \<comment> \<open>confirmation numbers shown in a receipt\<close>
  pg_globals :: "string \<Rightarrow> jsval option"     \<comment> \<open>global variables\<close>

fun join :: "string \<Rightarrow> string list \<Rightarrow> string" where
  \<comment> \<open>\<open>xs.join(sep)\<close>\<close>
  "join sep [] = []"
| "join sep [x] = x"
| "join sep (x # y # ys) = x @ sep @ join sep (y # ys)"

definition digit_char :: "nat \<Rightarrow> char" where
  "digit_char d = char_of (48 + d)"

fun string_of_nat :: "nat \<Rightarrow> string" where
  \<comment> \<open>a non-negative integer inside a template literal\<close>
  "string_of_nat n =
     (if n < 10 then [digit_char n] else string_of_nat (n div 10) @ [digit_char (n mod 10)])"

definition notify :: "string \<Rightarrow> string \<Rightarrow> page \<Rightarrow> page" where
  "notify kind msg p = p\<lparr>pg_notifications := pg_notifications p @ [(kind, msg)]\<rparr>"

definition showSpinner :: "page \<Rightarrow> string \<times> page" where
  \<comment> \<open>\<open>LoadingManager.showSpinner(form, ...)\<close>: a fresh id, registered as active\<close>
  "showSpinner p =
     (let loadingId = ''load_'' @ string_of_nat (pg_next_id p)
      in (loadingId, p\<lparr>pg_spinners := pg_spinners p @ [loadingId],
                         pg_next_id := Suc (pg_next_id p)\<rparr>))"

definition hideSpinner :: "jsval \<Rightarrow> page \<Rightarrow> page" where
  \<comment> \<open>\<open>LoadingManager.hideSpinner(loadingId)\<close>: nothing happens for an unknown id\<close>
  "hideSpinner loadingId p =
     (case loadingId of
        VStr i \<Rightarrow> p\<lparr>pg_spinners := removeAll i (pg_spinners p)\<rparr>
      | _ \<Rightarrow> p)"

definition reset_field :: "control \<Rightarrow> control" where
  "reset_field f = f\<lparr>f_value := f_default_value f, f_checked := f_default_checked f, f_files := []\<rparr>"

definition form_reset :: "page \<Rightarrow> page" where
  \<comment> \<open>\<open>form.reset()\<close>\<close>
  "form_reset p = p\<lparr>pg_form := (pg_form p)\<lparr>fm_fields := map reset_field (fm_fields (pg_form p))\<rparr>\<rparr>"

subsection \<open>CSV import\<close>

record csv_data =
  headers :: "string list"
  records :: "(string \<times> string) list list"

text \<open>
  \<open>LoadingManager\<close> (the loading-states script) has the methods \<open>showSpinner\<close>,
  \<open>hideSpinner\<close>, \<open>showProgress\<close>, \<open>hideProgress\<close>, \<open>createLoadingContainer\<close>,
  \<open>createProgressContainer\<close>, \<open>generateId\<close> and \<open>cleanup\<close>. It has no
  \<open>updateProgress\<close>: that is a method of the controller \<open>showProgress\<close> returns. A call
  \<open>LoadingManager.updateProgress(...)\<close> therefore throws a TypeError; so does the
  controller's \<open>complete\<close>, which calls \<open>this.updateProgress\<close> with \<open>this\<close> bound to
  \<open>LoadingManager\<close>. \<open>NotificationManager\<close> has \<open>show\<close>, \<open>success\<close>, \<open>error\<close>,
  \<open>warning\<close> and \<open>info\<close>, and no \<open>showToast\<close>.
\<close>

definition LoadingManager_updateProgress :: "js_error + unit" where
  "LoadingManager_updateProgress = Inl (TypeError ''LoadingManager.updateProgress is not a function'')"

definition progress_complete :: "js_error + unit" where
  "progress_complete = Inl (TypeError ''this.updateProgress is not a function'')"

definition NotificationManager_showToast :: "js_error + unit" where
  "NotificationManager_showToast = Inl (TypeError ''NotificationManager.showToast is not a function'')"

fun error_message :: "js_error \<Rightarrow> string" where
  \<comment> \<open>\<open>error.message\<close>\<close>
  "error_message (Error m) = m"
| "error_message (TypeError m) = m"
| "error_message (ReferenceError m) = m"
| "error_message (DOMException m) = m"

definition parse_csv_text :: "string \<Rightarrow> js_error + csv_data" where
  \<comment> \<open>the statements of the reader's \<open>onload\<close> handler from \<open>e.target.result\<close> on\<close>
  "parse_csv_text text =
     (let lines = filter (\<lambda>line. trim line \<noteq> []) (split_on (CHR 0x0A) text)
      in case lines of
           first # second # others \<Rightarrow>
             (let hs = map (\<lambda>h. toLowerCase (trim h)) (split_on (CHR '','') first);
                  rows = map (\<lambda>line. map trim (split_on (CHR '','') line)) (second # others)
              in Inr \<lparr>headers = hs,
                      records = map (\<lambda>values. zip hs values)
                                  (filter (\<lambda>values. length values = length hs) rows)\<rparr>)
         | _ \<Rightarrow> Inl (Error ''CSV file must contain at least a header row and one data row''))"

definition readCSVFile :: "string \<Rightarrow> js_error + csv_data" where
  \<comment> \<open>the promise of \<open>readCSVFile\<close> for a file whose text is \<open>text\<close>: the handler
     reports progress first, and whatever is thrown inside its \<open>try\<close> rejects the promise
     as a parse failure\<close>
  "readCSVFile text =
     (case (case LoadingManager_updateProgress of
              Inl e \<Rightarrow> Inl e
            | Inr u \<Rightarrow> parse_csv_text text) of
        Inl e \<Rightarrow> Inl (Error (''Failed to parse CSV file: '' @ error_message e))
      | Inr csvData \<Rightarrow> Inr csvData)"

definition requiredColumns :: "string list" where
  "requiredColumns = [''medicine'', ''availability'', ''datestocked'']"

definition validate_record :: "js_host \<Rightarrow> (string \<times> string) list \<Rightarrow> nat \<Rightarrow> string list" where
  \<comment> \<open>the messages one record adds, \<open>index\<close> counting from 0\<close>
  "validate_record h record index =
     (let row = ''Row '' @ string_of_nat (index + 2) in
      (case get_prop record ''medicine'' of
         None \<Rightarrow> [row @ '': Medicine name is required'']
       | Some m \<Rightarrow> if m = [] \<or> trim m = [] then [row @ '': Medicine name is required''] else []) @
      (case get_prop record ''availability'' of
         None \<Rightarrow> []
       | Some a \<Rightarrow>
           if a \<noteq> [] \<and>
              toLowerCase a \<notin> set [''true'', ''false'', ''1'', ''0'', ''yes'', ''no'']
           then [row @ '': Availability must be true/false, 1/0, or yes/no''] else []) @
      (case get_prop record ''datestocked'' of
         None \<Rightarrow> []
       | Some d \<Rightarrow>
           if d \<noteq> [] \<and> date_parse h d = None
           then [row @ '': Invalid date format for datestocked''] else []))"

definition validateCSVData :: "js_host \<Rightarrow> csv_data \<Rightarrow> check_result" where
  "validateCSVData h csvData =
     (let errs =
            map (\<lambda>column. ''Missing required column: '' @ column)
              (filter (\<lambda>column. column \<notin> set (headers csvData)) requiredColumns) @
            concat (map (\<lambda>(record, index). validate_record h record index)
              (zip (records csvData) [0..<length (records csvData)]))
      in \<lparr>isValid = (errs = []), errors = errs\<rparr>)"

definition parseBoolean :: "string option \<Rightarrow> bool" where
  \<comment> \<open>\<open>None\<close> is \<open>undefined\<close>\<close>
  "parseBoolean v =
     (case v of
        None \<Rightarrow> False
      | Some s \<Rightarrow> s \<noteq> [] \<and> trim (toLowerCase s) \<in> set [''true'', ''1'', ''yes'', ''available''])"

record csv_results =
  successful :: nat
  failed :: nat
  csv_errors :: "string list"

definition str_or_undefined :: "string option \<Rightarrow> jsval" where
  "str_or_undefined v = (case v of None \<Rightarrow> VUndefined | Some s \<Rightarrow> VStr s)"

definition csv_payload :: "(string \<times> string) list \<Rightarrow> payload" where
  "csv_payload record =
     [(''medicine'', str_or_undefined (get_prop record ''medicine'')),
      (''availability'', VBool (parseBoolean (get_prop record ''availability''))),
      (''datestocked'', str_or_undefined (get_prop record ''datestocked''))]"

definition row_failed :: "nat \<Rightarrow> string \<Rightarrow> csv_results \<Rightarrow> csv_results" where
  \<comment> \<open>\<open>results.failed++; results.errors.push(`Row ${i + 2}: ${msg}`)\<close>\<close>
  "row_failed i msg results =
     results\<lparr>failed := failed results + 1,
             csv_errors := csv_errors results @ [''Row '' @ string_of_nat (i + 2) @ '': '' @ msg]\<rparr>"

definition process_record :: "nat \<Rightarrow> post_result \<Rightarrow> csv_results \<Rightarrow> csv_results" where
  \<comment> \<open>one turn of the loop of \<open>processCSVRecords\<close> after the call of \<open>ApiHelper.post\<close>:
     the answer is counted, then progress is reported; whatever is thrown on the way is
     caught and counted as a failure of the row\<close>
  "process_record i answer results =
     (case answer of
        PostRejected e \<Rightarrow> row_failed i (error_message e) results
      | NoResponse \<Rightarrow>
          row_failed i ''Cannot read properties of undefined (reading 'success')'' results
      | Response ok d err \<Rightarrow>
          (let counted =
                 (if ok then results\<lparr>successful := successful results + 1\<rparr>
                  else row_failed i
                         (case err of None \<Rightarrow> ''Unknown error''
                          | Some m \<Rightarrow> if m = [] then ''Unknown error'' else m) results)
           in case LoadingManager_updateProgress of
                Inl e \<Rightarrow> row_failed i (error_message e) counted
              | Inr u \<Rightarrow> counted))"

fun processCSVRecords ::
  "backend \<Rightarrow> string \<Rightarrow> (string \<times> string) list list \<Rightarrow> nat \<Rightarrow> csv_results \<Rightarrow> page
   \<Rightarrow> csv_results \<times> page" where
  \<comment> \<open>the loop from record \<open>i\<close> on: one \<open>ApiHelper.post\<close> per record\<close>
  "processCSVRecords api endpoint [] i results p = (results, p)"
| "processCSVRecords api endpoint (record # rest) i results p =
     (let payload = csv_payload record;
          answer = api (length (pg_posts p)) endpoint payload;
          p' = p\<lparr>pg_posts := pg_posts p @ [(endpoint, payload)]\<rparr>
      in processCSVRecords api endpoint rest (i + 1) (process_record i answer results) p')"

subsection \<open>Form data and drafts\<close>

definition empty_file :: js_file where
  \<comment> \<open>the entry of a file input with no file selected\<close>
  "empty_file =
     \<lparr>file_name = [], file_size = 0, file_type = ''application/octet-stream'', file_text = []\<rparr>"

definition field_entries :: "control \<Rightarrow> (string \<times> jsval) list" where
  \<comment> \<open>the entries \<open>new FormData(form)\<close> holds for one control: none for a disabled or
     nameless control, for an unchecked checkbox or radio button, for a button, or for a
     \<open>select\<close> with no option selected\<close>
  "field_entries f =
     (if f_disabled f \<or> f_name f = [] then []
      else if f_type f \<in> set [''checkbox'', ''radio''] then
        (if f_checked f then [(f_name f, VStr (f_value f))] else [])
      else if f_type f = ''file'' then
        (if f_files f = [] then [(f_name f, VFile empty_file)]
         else map (\<lambda>file. (f_name f, VFile file)) (f_files f))
      else if f_type f \<in> set [''submit'', ''button'', ''reset'', ''image''] then []
      else if f_tag f = ''SELECT'' then
        (if f_value f \<in> set (f_options f) then [(f_name f, VStr (f_value f))] else [])
      else [(f_name f, VStr (f_value f))])"

fun collect_entries :: "(string \<times> jsval) list \<Rightarrow> payload \<Rightarrow> payload" where
  \<comment> \<open>the loop over \<open>formData.entries()\<close>\<close>
  "collect_entries [] data = data"
| "collect_entries ((key, v) # rest) data =
     collect_entries rest
       (case get_prop data key of
          None \<Rightarrow> set_prop key v data
        | Some old \<Rightarrow>
            if truthy old then
              (case old of
                 VArr xs \<Rightarrow> set_prop key (VArr (xs @ [v])) data
               | _ \<Rightarrow> set_prop key (VArr [old, v]) data)
            else set_prop key v data)"

fun add_unchecked :: "control list \<Rightarrow> payload \<Rightarrow> payload" where
  \<comment> \<open>the loop over \<open>input[type="checkbox"]\<close>\<close>
  "add_unchecked [] data = data"
| "add_unchecked (checkbox # rest) data =
     add_unchecked rest
       (if f_tag checkbox = ''INPUT'' \<and> f_type checkbox = ''checkbox'' \<and>
           get_prop data (f_name checkbox) = None
        then set_prop (f_name checkbox) (VBool False) data else data)"

definition formType_or_generic :: "form \<Rightarrow> string" where
  \<comment> \<open>\<open>form.dataset.formType || 'generic'\<close>\<close>
  "formType_or_generic fm =
     (case fm_formType fm of None \<Rightarrow> ''generic'' | Some t \<Rightarrow> if t = [] then ''generic'' else t)"

definition prepareFormData :: "page \<Rightarrow> bool \<Rightarrow> payload" where
  "prepareFormData p includeDrafts =
     (let fm = pg_form p;
          data = collect_entries (concat (map field_entries (fm_fields fm))) [];
          data' = (if includeDrafts then add_unchecked (fm_fields fm) data else data)
      in set_prop ''_metadata''
           (VObj [(''formType'', VStr (formType_or_generic fm)),
                  (''timestamp'', VStr (pg_now_iso p)),
                  (''userAgent'', VStr (pg_userAgent p)),
                  (''url'', VStr (pg_href p))])
           data')"

definition isFormEmpty :: "payload \<Rightarrow> bool" where
  "isFormEmpty formData =
     (filter (\<lambda>(key, v). key \<noteq> ''_metadata'' \<and> v \<noteq> VStr [] \<and> v \<noteq> VBool False) formData = [])"

fun json_roundtrip :: "jsval \<Rightarrow> jsval" where
  \<comment> \<open>\<open>JSON.parse(JSON.stringify(v))\<close> for the values of form data: a \<open>File\<close> has no
     enumerable properties of its own and comes back as an empty object\<close>
  "json_roundtrip (VFile f) = VObj []"
| "json_roundtrip (VArr xs) = VArr (map json_roundtrip xs)"
| "json_roundtrip (VObj kvs) =
     VObj (map (\<lambda>(k, v). (k, json_roundtrip v)) (filter (\<lambda>(k, v). v \<noteq> VUndefined) kvs))"
| "json_roundtrip v = v"

definition draft_key :: "form \<Rightarrow> string" where
  \<comment> \<open>\<open>storagePrefix + (form.id || form.dataset.formType || 'form')\<close>\<close>
  "draft_key fm =
     config_storagePrefix @
       (if fm_id fm \<noteq> [] then fm_id fm
        else (case fm_formType fm of
                None \<Rightarrow> ''form''
              | Some t \<Rightarrow> if t = [] then ''form'' else t))"

definition saveDraft :: "page \<Rightarrow> page" where
  \<comment> \<open>storage, taken to accept the write, holds the draft as \<open>JSON.parse\<close> will give
     it back\<close>
  "saveDraft p =
     (let formData = prepareFormData p True
      in if isFormEmpty formData then p
         else p\<lparr>pg_storage :=
                 set_prop (draft_key (pg_form p))
                   \<lparr>d_timestamp = pg_now p,
                    d_data = map (\<lambda>(k, v). (k, json_roundtrip v)) formData,
                    d_url = pg_path p\<rparr>
                   (pg_storage p)\<rparr>)"

definition clearDraft :: "page \<Rightarrow> page" where
  \<comment> \<open>\<open>localStorage.removeItem(storageKey)\<close>\<close>
  "clearDraft p =
     p\<lparr>pg_storage := filter (\<lambda>(k, d). k \<noteq> draft_key (pg_form p)) (pg_storage p)\<rparr>"

fun to_string :: "jsval \<Rightarrow> string" where
  \<comment> \<open>the string a DOM property setter or a template literal makes of a value; the
     setters of \<open>value\<close> and \<open>textContent\<close> make the empty string of \<open>null\<close>\<close>
  "to_string VUndefined = []"
| "to_string (VBool b) = (if b then ''true'' else ''false'')"
| "to_string (VStr s) = s"
| "to_string (VArr xs) =
     join '','' (map (\<lambda>x. case x of VUndefined \<Rightarrow> [] | _ \<Rightarrow> to_string x) xs)"
| "to_string (VObj kvs) = ''[object Object]''"
| "to_string (VFile f) = ''[object File]''"

definition set_checked :: "nat \<Rightarrow> bool \<Rightarrow> control list \<Rightarrow> control list" where
  \<comment> \<open>\<open>field.checked = b\<close> on the control at position \<open>i\<close>: checking a radio button
     unchecks the other radio buttons of its group\<close>
  "set_checked i b flds =
     (let target = flds ! i in
      map (\<lambda>(j, f).
             if j = i then f\<lparr>f_checked := b\<rparr>
             else if b \<and> f_type target = ''radio'' \<and> f_type f = ''radio'' \<and>
                     f_name f = f_name target \<and> f_name target \<noteq> []
             then f\<lparr>f_checked := False\<rparr>
             else f)
          (zip [0..<length flds] flds))"

definition set_value :: "control \<Rightarrow> string \<Rightarrow> js_error + control" where
  \<comment> \<open>\<open>field.value = s\<close>: a file input accepts the empty string only, a \<open>select\<close>
     selects the option with that value or none\<close>
  "set_value f s =
     (if f_tag f = ''INPUT'' \<and> f_type f = ''file'' then
        (if s = [] then Inr (f\<lparr>f_files := []\<rparr>)
         else Inl (DOMException ''This input element accepts a filename, which may only be programmatically set to the empty string.''))
      else if f_tag f = ''SELECT'' then
        Inr (f\<lparr>f_value := (if s \<in> set (f_options f) then s else [])\<rparr>)
      else Inr (f\<lparr>f_value := s\<rparr>))"

definition find_index :: "('a \<Rightarrow> bool) \<Rightarrow> 'a list \<Rightarrow> nat option" where
  \<comment> \<open>the position of the first element that satisfies the predicate\<close>
  "find_index P xs =
     (case filter (\<lambda>i. P (xs ! i)) [0..<length xs] of [] \<Rightarrow> None | i # _ \<Rightarrow> Some i)"

fun restore_entries :: "(string \<times> jsval) list \<Rightarrow> control list \<Rightarrow> js_error option \<times> control list" where
  \<comment> \<open>the \<open>forEach\<close> over \<open>Object.entries(draftData.data)\<close>: the exception that cuts
     it short, if any, and the fields as it leaves them; the field of an entry is the
     first control with that name, and a value read from a control is written back as it is\<close>
  "restore_entries [] flds = (None, flds)"
| "restore_entries ((fieldName, v) # rest) flds =
     (case find_index (\<lambda>f. f_name f = fieldName \<and> fieldName \<noteq> []) flds of
        None \<Rightarrow> restore_entries rest flds
      | Some i \<Rightarrow>
          (let field = flds ! i in
           if f_type field = ''checkbox'' \<or> f_type field = ''radio'' then
             restore_entries rest (set_checked i (truthy v) flds)
           else
             (case set_value field (to_string v) of
                Inl e \<Rightarrow> (Some e, flds)
              | Inr field' \<Rightarrow> restore_entries rest (flds[i := field']))))"

definition restoreDraft :: "draft \<Rightarrow> page \<Rightarrow> page" where
  "restoreDraft draftData p =
     (case restore_entries (d_data draftData) (fm_fields (pg_form p)) of
        (thrown, flds') \<Rightarrow>
          (let p' = p\<lparr>pg_form := (pg_form p)\<lparr>fm_fields := flds'\<rparr>\<rparr>
           in case thrown of
                None \<Rightarrow> notify ''success'' ''Draft restored successfully'' p'
              | Some e \<Rightarrow> notify ''error'' ''Failed to restore draft'' p'))"


subsection \<open>Form validation\<close>

fun str_gt :: "string \<Rightarrow> string \<Rightarrow> bool" where
  \<comment> \<open>\<open>a > b\<close> on strings: by code units, a proper prefix being smaller\<close>
  "str_gt [] b = False"
| "str_gt (x # xs) [] = True"
| "str_gt (x # xs) (y # ys) =
     ((of_char x :: nat) > of_char y \<or> (x = y \<and> str_gt xs ys))"

definition value_by_name :: "form \<Rightarrow> string \<Rightarrow> string option" where
  \<comment> \<open>\<open>form.querySelector('[name="n"]')?.value\<close>\<close>
  "value_by_name fm n =
     (case find (\<lambda>f. f_name f = n) (fm_fields fm) of None \<Rightarrow> None | Some f \<Rightarrow> Some (f_value f))"

definition both_present :: "string option \<Rightarrow> string option \<Rightarrow> (string \<Rightarrow> string \<Rightarrow> bool) \<Rightarrow> bool" where
  \<comment> \<open>\<open>a && b && test(a, b)\<close> on two values that may be missing\<close>
  "both_present a b test =
     (case (a, b) of (Some x, Some y) \<Rightarrow> x \<noteq> [] \<and> y \<noteq> [] \<and> test x y | _ \<Rightarrow> False)"

definition validateCrossFields :: "js_host \<Rightarrow> form \<Rightarrow> check_result" where
  "validateCrossFields h fm =
     (let errs =
            (if both_present (value_by_name fm ''startDate'') (value_by_name fm ''endDate'')
                  (\<lambda>startDate endDate.
                     case (date_parse h startDate, date_parse h endDate) of
                       (Some a, Some b) \<Rightarrow> a > b | _ \<Rightarrow> False)
             then [''Start date cannot be after end date''] else []) @
            (if both_present (value_by_name fm ''collectionTime'')
                  (value_by_name fm ''processingTime'') str_gt
             then [''Processing time cannot be before collection time''] else []) @
            (if both_present (value_by_name fm ''patientId'') (value_by_name fm ''sampleId'')
                  (\<lambda>patientId sampleId. \<not> startsWith sampleId (take 3 patientId))
             then [''Sample ID should start with patient ID prefix''] else [])
      in \<lparr>isValid = (errs = []), errors = errs\<rparr>)"

fun has_feedback :: "node list \<Rightarrow> bool" where
  \<comment> \<open>\<open>querySelector('.invalid-feedback')\<close> on the element with these children finds a
     node\<close>
  "has_feedback [] = False"
| "has_feedback (Feedback t # ns) = True"
| "has_feedback (Box cs # ns) = (has_feedback cs \<or> has_feedback ns)"
| "has_feedback (Ctl i # ns) = has_feedback ns"

fun set_feedback :: "string \<Rightarrow> node list \<Rightarrow> node list" where
  \<comment> \<open>\<open>textContent = msg\<close> on the node found, the first one in document order\<close>
  "set_feedback msg [] = []"
| "set_feedback msg (Feedback t # ns) = Feedback msg # ns"
| "set_feedback msg (Box cs # ns) =
     (if has_feedback cs then Box (set_feedback msg cs) # ns
      else Box cs # set_feedback msg ns)"
| "set_feedback msg (Ctl i # ns) = Ctl i # set_feedback msg ns"

fun remove_feedback :: "node list \<Rightarrow> node list" where
  \<comment> \<open>\<open>remove()\<close> on the node found, if any\<close>
  "remove_feedback [] = []"
| "remove_feedback (Feedback t # ns) = ns"
| "remove_feedback (Box cs # ns) =
     (if has_feedback cs then Box (remove_feedback cs) # ns
      else Box cs # remove_feedback ns)"
| "remove_feedback (Ctl i # ns) = Ctl i # remove_feedback ns"

fun below :: "nat \<Rightarrow> (node list \<Rightarrow> node list) \<Rightarrow> node list \<Rightarrow> node list" where
  \<comment> \<open>the change \<open>g\<close> made to the children of the box that holds control \<open>i\<close>\<close>
  "below i g [] = []"
| "below i g (Box cs # ns) =
     Box (if Ctl i \<in> set cs then g cs else below i g cs) # below i g ns"
| "below i g (Ctl j # ns) = Ctl j # below i g ns"
| "below i g (Feedback t # ns) = Feedback t # below i g ns"

definition at_parent :: "nat \<Rightarrow> (node list \<Rightarrow> node list) \<Rightarrow> node list \<Rightarrow> node list" where
  \<comment> \<open>the change \<open>g\<close> made to the children of \<open>field.parentNode\<close>, for the control at
     position \<open>i\<close>: the parent is the form element or a box under it\<close>
  "at_parent i g layout = (if Ctl i \<in> set layout then g layout else below i g layout)"

definition set_class_invalid :: "nat \<Rightarrow> bool \<Rightarrow> control list \<Rightarrow> control list" where
  \<comment> \<open>\<open>classList.add('is-invalid')\<close> or \<open>classList.remove('is-invalid')\<close> on the
     control at position \<open>i\<close>\<close>
  "set_class_invalid i b flds =
     (if i < length flds then flds[i := (flds ! i)\<lparr>f_class_invalid := b\<rparr>] else flds)"

definition FormHandler_showFieldError :: "nat \<Rightarrow> string \<Rightarrow> form \<Rightarrow> form" where
  \<comment> \<open>the first feedback node under the parent is reused, or one is appended to the
     parent\<close>
  "FormHandler_showFieldError i msg fm =
     fm\<lparr>fm_fields := set_class_invalid i True (fm_fields fm),
        fm_layout :=
          at_parent i
            (\<lambda>siblings. if has_feedback siblings then set_feedback msg siblings
                        else siblings @ [Feedback msg])
            (fm_layout fm)\<rparr>"

definition FormHandler_clearFieldError :: "nat \<Rightarrow> form \<Rightarrow> form" where
  "FormHandler_clearFieldError i fm =
     fm\<lparr>fm_fields := set_class_invalid i False (fm_fields fm),
        fm_layout := at_parent i remove_feedback (fm_layout fm)\<rparr>"

definition validate_input :: "js_host \<Rightarrow> nat \<Rightarrow> validation_result \<times> form \<Rightarrow> validation_result \<times> form" where
  \<comment> \<open>one turn of the loop of \<open>validateForm\<close>, for the input at position \<open>i\<close>: the
     result so far and the form\<close>
  "validate_input h i state =
     (case state of
        (result, fm) \<Rightarrow>
          (let fieldResult = FormHandler_validateField h (fm_fields fm ! i);
               r1 = (if \<not> isValid fieldResult
                     then result\<lparr>errors := errors result @ errors fieldResult\<rparr>
                     else result);
               fm' = (if \<not> isValid fieldResult
                      then FormHandler_showFieldError i
                             (case errors fieldResult of [] \<Rightarrow> [] | e # es \<Rightarrow> e) fm
                      else FormHandler_clearFieldError i fm)
           in (r1\<lparr>warnings := warnings r1 @ warnings fieldResult\<rparr>, fm')))"

definition FormHandler_validateForm :: "js_host \<Rightarrow> form \<Rightarrow> validation_result \<times> form" where
  "FormHandler_validateForm h fm =
     (case fold (validate_input h) [0..<length (fm_fields fm)]
             (\<lparr>isValid = True, errors = [], warnings = []\<rparr>, fm) of
        (result, fm') \<Rightarrow>
          (let crossFieldResult = validateCrossFields h fm';
               errs = errors result @
                      (if \<not> isValid crossFieldResult then errors crossFieldResult else [])
           in (result\<lparr>isValid := (errs = []), errors := errs\<rparr>, fm')))"

definition same_inputs :: "control list \<Rightarrow> control list \<Rightarrow> bool" where
  \<comment> \<open>the same controls, whatever their \<open>is-invalid\<close> class\<close>
  "same_inputs flds flds' =
     (map (\<lambda>f. f\<lparr>f_class_invalid := False\<rparr>) flds =
      map (\<lambda>f. f\<lparr>f_class_invalid := False\<rparr>) flds')"

subsection \<open>File uploads\<close>

type_synonym uploader = "js_file \<Rightarrow> upload_result"

definition is_file_input :: "control \<Rightarrow> bool" where
  \<comment> \<open>matches \<open>input[type="file"]\<close>\<close>
  "is_file_input f = (f_tag f = ''INPUT'' \<and> f_type f = ''file'')"

definition hasFileUploads :: "form \<Rightarrow> bool" where
  "hasFileUploads fm = list_ex is_file_input (fm_fields fm)"

fun upload_files :: "uploader \<Rightarrow> js_file list \<Rightarrow> jsval list \<Rightarrow> page \<Rightarrow> (js_error + jsval list) \<times> page" where
  \<comment> \<open>the loop over the files of one input\<close>
  "upload_files up [] uploadedFiles p = (Inr uploadedFiles, p)"
| "upload_files up (file # rest) uploadedFiles p =
     (let p' = p\<lparr>pg_uploads := pg_uploads p @ [file]\<rparr> in
      case up file of
        Uploaded d \<Rightarrow> upload_files up rest (uploadedFiles @ [d]) p'
      | UploadFailed err \<Rightarrow>
          (Inl (Error (''Failed to upload '' @ file_name file @ '': '' @ err)), p')
      | UploadRejected e \<Rightarrow> (Inl e, p'))"

fun handleFileUploads :: "uploader \<Rightarrow> control list \<Rightarrow> payload \<Rightarrow> page \<Rightarrow> (js_error + payload) \<times> page" where
  \<comment> \<open>the loop over the file inputs: the files of an input are uploaded one by one, then
     the progress controller is told to complete\<close>
  "handleFileUploads up [] formData p = (Inr formData, p)"
| "handleFileUploads up (fileInput # rest) formData p =
     (if is_file_input fileInput \<and> f_files fileInput \<noteq> [] then
        (case upload_files up (f_files fileInput) [] p of
           (Inl e, p') \<Rightarrow> (Inl e, p')
         | (Inr uploadedFiles, p') \<Rightarrow>
             (case progress_complete of
                Inl e \<Rightarrow> (Inl e, p')
              | Inr u \<Rightarrow>
                  handleFileUploads up rest
                    (set_prop (if f_name fileInput \<noteq> [] then f_name fileInput else f_id fileInput)
                       (VArr uploadedFiles) formData) p'))
      else handleFileUploads up rest formData p)"

subsection \<open>CSV upload\<close>

definition handleCSVUpload :: "js_host \<Rightarrow> backend \<Rightarrow> string \<Rightarrow> page \<Rightarrow> (js_error + csv_results) \<times> page" where
  \<comment> \<open>the exception thrown or the results returned, and the page as the function leaves it\<close>
  "handleCSVUpload h api endpoint p =
     (case find is_file_input (fm_fields (pg_form p)) of
        None \<Rightarrow> (Inl (Error ''Please select a CSV file to upload''), p)
      | Some fileInput \<Rightarrow>
         (case f_files fileInput of
            [] \<Rightarrow> (Inl (Error ''Please select a CSV file to upload''), p)
          | file # others \<Rightarrow>
              if \<not> endsWith (toLowerCase (file_name file)) ''.csv''
              then (Inl (Error ''Please upload a valid CSV file''), p)
              else
                (case readCSVFile (file_text file) of
                   Inl e \<Rightarrow> (Inl e, p)
                 | Inr csvData \<Rightarrow>
                     (let validationResult = validateCSVData h csvData in
                      if \<not> isValid validationResult
                      then (Inl (Error (''CSV validation failed: '' @
                                   join '', '' (errors validationResult))), p)
                      else
                        (case LoadingManager_updateProgress of
                           Inl e \<Rightarrow> (Inl e, p)
                         | Inr u \<Rightarrow>
                            (case processCSVRecords api endpoint (records csvData) 0
                                    \<lparr>successful = 0, failed = 0, csv_errors = []\<rparr> p of
                               (results, p') \<Rightarrow>
                                 (case LoadingManager_updateProgress of
                                    Inl e \<Rightarrow> (Inl e, p')
                                  | Inr u \<Rightarrow>
                                     (case NotificationManager_showToast of
                                        Inl e \<Rightarrow> (Inl e, p')
                                      | Inr u \<Rightarrow>
                                          (Inr results,
                                           if failed results = 0 then form_reset p'
                                           else p')))))))))"

subsection \<open>Submission\<close>

datatype submit_result =
  Succeeded jsval string       \<comment> \<open>\<open>{success: true, data, message}\<close>\<close>
| CsvProcessed csv_results     \<comment> \<open>\<open>{success: true, data: results}\<close>\<close>
| Failed string                \<comment> \<open>\<open>{success: false, error}\<close>\<close>

datatype outcome =
  Returned submit_result       \<comment> \<open>the promise of \<open>submitForm\<close> resolves\<close>
| Rejected js_error            \<comment> \<open>the promise of \<open>submitForm\<close> rejects\<close>

text \<open>The constants of one call of \<open>submitForm\<close>, all declared inside its \<open>try\<close> block.\<close>

record locals =
  l_formType :: string
  l_endpoint :: string
  l_originalText :: "string option"     \<comment> \<open>\<open>submitButton?.textContent\<close>\<close>
  l_loadingId :: string

definition getEndpointForForm :: "string \<Rightarrow> string" where
  "getEndpointForForm formType =
     (case map_of
        [(''clinicForm'', ''/clinic-samples''), (''pharmacyForm'', ''/pharmacy-captures''),
         (''pharmacyCSV'', ''/pharmacy-records''), (''labForm'', ''/lab-results''),
         (''processingForm'', ''/sample-processing''), (''supportForm'', ''/support-requests'')]
        formType of
        Some e \<Rightarrow> e
      | None \<Rightarrow> ''/forms/submit'')"

definition getSuccessMessage :: "string \<Rightarrow> string" where
  "getSuccessMessage formType =
     (case map_of
        [(''clinicForm'', ''Sample collection form submitted successfully''),
         (''pharmacyForm'', ''Pharmacy capture recorded successfully''),
         (''pharmacyCSV'', ''Drug inventory uploaded successfully''),
         (''labForm'', ''Lab results submitted successfully''),
         (''processingForm'', ''Sample processing completed successfully''),
         (''supportForm'', ''Support request submitted successfully'')]
        formType of
        Some m \<Rightarrow> m
      | None \<Rightarrow> ''Form submitted successfully'')"

definition set_button :: "(button \<Rightarrow> button) \<Rightarrow> page \<Rightarrow> page" where
  \<comment> \<open>\<open>if (submitButton) { ... }\<close>\<close>
  "set_button upd p = p\<lparr>pg_form := (pg_form p)\<lparr>fm_button := map_option upd (fm_button (pg_form p))\<rparr>\<rparr>"

definition submitForm_enter :: "string option \<Rightarrow> page \<Rightarrow> locals \<times> page" where
  \<comment> \<open>\<open>submitForm\<close> up to its first \<open>await\<close>: the loading state is shown and the submit
     button disabled; \<open>opt\<close> is \<open>options.endpoint\<close>\<close>
  "submitForm_enter opt p =
     (let formType = formType_or_generic (pg_form p);
          endpoint = (case opt of
                        None \<Rightarrow> getEndpointForForm formType
                      | Some e \<Rightarrow> if e = [] then getEndpointForForm formType else e);
          originalText = map_option b_text (fm_button (pg_form p));
          (loadingId, p1) = showSpinner p
      in (\<lparr>l_formType = formType, l_endpoint = endpoint, l_originalText = originalText,
           l_loadingId = loadingId\<rparr>,
          set_button (\<lambda>b. b\<lparr>b_disabled := True, b_text := ''Submitting...''\<rparr>) p1))"

definition submitForm_catch :: "js_error \<Rightarrow> page \<Rightarrow> outcome \<times> page" where
  \<comment> \<open>the \<open>catch\<close> block. \<open>loadingId\<close> and \<open>originalText\<close> are constants of the
     \<open>try\<close> block and out of scope here: each resolves to a global variable of that name,
     and reading it throws a ReferenceError when there is none\<close>
  "submitForm_catch error p =
     (case pg_globals p ''loadingId'' of
        None \<Rightarrow> (Rejected (ReferenceError ''loadingId is not defined''), p)
      | Some loadingId \<Rightarrow>
          (let p1 = hideSpinner loadingId p;
               finish = (\<lambda>p2.
                 (let errorMessage =
                        (if error_message error \<noteq> [] then error_message error
                         else ''Form submission failed. Please try again.'')
                  in (Returned (Failed errorMessage), notify ''error'' errorMessage p2)))
           in case fm_button (pg_form p1) of
                None \<Rightarrow> finish p1
              | Some submitButton \<Rightarrow>
                  (let p2 = set_button (\<lambda>b. b\<lparr>b_disabled := False\<rparr>) p1 in
                   case pg_globals p ''originalText'' of
                     None \<Rightarrow> (Rejected (ReferenceError ''originalText is not defined''), p2)
                   | Some originalText \<Rightarrow>
                       finish (set_button
                         (\<lambda>b. b\<lparr>b_text := (case originalText of VUndefined \<Rightarrow> []
                                            | v \<Rightarrow> to_string v)\<rparr>) p2))))"

datatype pending =
  Settled outcome                \<comment> \<open>the call is over\<close>
| Posting nat string payload     \<comment> \<open>the call awaits the answer to its \<open>ApiHelper.post\<close>\<close>

definition submitForm_send ::
  "js_host \<Rightarrow> backend \<Rightarrow> uploader \<Rightarrow> locals \<Rightarrow> page \<Rightarrow> pending \<times> page" where
  \<comment> \<open>from the validation of the form to the call of \<open>ApiHelper.post\<close>\<close>
  "submitForm_send h api up l p =
     (case FormHandler_validateForm h (pg_form p) of
        (validationResult, fm') \<Rightarrow>
          (let p1 = p\<lparr>pg_form := fm'\<rparr> in
           if \<not> isValid validationResult then
             (case submitForm_catch
                     (Error (''Please correct the errors in the form: '' @
                             join '', '' (errors validationResult))) p1 of
                (out, p2) \<Rightarrow> (Settled out, p2))
           else
             (let formData = prepareFormData p1 False in
              if l_formType l = ''pharmacyCSV'' then
                (case handleCSVUpload h api (l_endpoint l) p1 of
                   (Inl e, p2) \<Rightarrow> (case submitForm_catch e p2 of (out, p3) \<Rightarrow> (Settled out, p3))
                 | (Inr results, p2) \<Rightarrow> (Settled (Returned (CsvProcessed results)), p2))
              else
                (case (if hasFileUploads (pg_form p1)
                       then handleFileUploads up (fm_fields (pg_form p1)) formData p1
                       else (Inr formData, p1)) of
                   (Inl e, p2) \<Rightarrow> (case submitForm_catch e p2 of (out, p3) \<Rightarrow> (Settled out, p3))
                 | (Inr formData', p2) \<Rightarrow>
                     (Posting (length (pg_posts p2)) (l_endpoint l) formData',
                      p2\<lparr>pg_posts := pg_posts p2 @ [(l_endpoint l, formData')]\<rparr>)))))"

definition handleSuccessfulSubmission :: "jsval \<Rightarrow> page \<Rightarrow> js_error option \<times> page" where
  \<comment> \<open>the exception thrown, if any, and the page as the function leaves it\<close>
  "handleSuccessfulSubmission responseData p =
     (let p1 = (if fm_clearOnSuccess (pg_form p) \<noteq> Some ''false'' then form_reset p else p);
          p2 = (case fm_successRedirect (pg_form p1) of
                  None \<Rightarrow> p1
                | Some u \<Rightarrow> if u = [] then p1 else p1\<lparr>pg_redirect := Some u\<rparr>)
      in case responseData of
           VUndefined \<Rightarrow>
             (Some (TypeError ''Cannot read properties of undefined (reading 'id')''), p2)
         | VObj props \<Rightarrow>
             (let idv = (case get_prop props ''id'' of None \<Rightarrow> VUndefined | Some v \<Rightarrow> v);
                  conf = (case get_prop props ''confirmationNumber'' of
                            None \<Rightarrow> VUndefined | Some v \<Rightarrow> v)
              in if truthy idv then (None, p2\<lparr>pg_receipts := pg_receipts p2 @ [to_string idv]\<rparr>)
                 else if truthy conf
                 then (None, p2\<lparr>pg_receipts := pg_receipts p2 @ [to_string conf]\<rparr>)
                 else (None, p2))
         | _ \<Rightarrow> (None, p2))"

definition submitForm_receive :: "locals \<Rightarrow> post_result \<Rightarrow> page \<Rightarrow> outcome \<times> page" where
  \<comment> \<open>from the answer of the backend to the end of the call\<close>
  "submitForm_receive l answer p =
     (case answer of
        PostRejected e \<Rightarrow> submitForm_catch e p
      | NoResponse \<Rightarrow>
          submitForm_catch
            (TypeError ''Cannot read properties of undefined (reading 'success')'') p
      | Response ok responseData err \<Rightarrow>
          if \<not> ok then
            submitForm_catch
              (Error (case err of
                        None \<Rightarrow> ''Form submission failed''
                      | Some m \<Rightarrow> if m = [] then ''Form submission failed'' else m)) p
          else
            (let p1 = clearDraft p;
                 p2 = hideSpinner (VStr (l_loadingId l)) p1;
                 p3 = set_button
                        (\<lambda>b. b\<lparr>b_disabled := False,
                               b_text := (case l_originalText l of None \<Rightarrow> [] | Some t \<Rightarrow> t)\<rparr>) p2;
                 successMessage = getSuccessMessage (l_formType l);
                 p4 = notify ''success'' successMessage p3
             in case handleSuccessfulSubmission responseData p4 of
                  (Some e, p5) \<Rightarrow> submitForm_catch e p5
                | (None, p5) \<Rightarrow> (Returned (Succeeded responseData successMessage), p5)))"

definition settle :: "backend \<Rightarrow> locals \<Rightarrow> pending \<Rightarrow> page \<Rightarrow> outcome \<times> page" where
  \<comment> \<open>the rest of a call once the backend has answered\<close>
  "settle api l s p =
     (case s of
        Settled out \<Rightarrow> (out, p)
      | Posting i endpoint formData \<Rightarrow> submitForm_receive l (api i endpoint formData) p)"

definition submitForm ::
  "js_host \<Rightarrow> backend \<Rightarrow> uploader \<Rightarrow> string option \<Rightarrow> page \<Rightarrow> outcome \<times> page" where
  \<comment> \<open>one call of \<open>submitForm(form, options)\<close> that nothing else interleaves with\<close>
  "submitForm h api up opt p =
     (case submitForm_enter opt p of
        (l, p1) \<Rightarrow>
          (case submitForm_send h api up l p1 of
             (s, p2) \<Rightarrow> settle api l s p2))"

definition submit_twice ::
  "js_host \<Rightarrow> backend \<Rightarrow> uploader \<Rightarrow> page \<Rightarrow> (outcome \<times> outcome) \<times> page" where
  \<comment> \<open>the listener bound by \<open>bindForms\<close> run for two submit events of one tick: each
     calls \<open>submitForm(form)\<close>, which runs up to its first \<open>await\<close>; then both calls
     continue, the first one first\<close>
  "submit_twice h api up p =
     (case submitForm_enter None p of
        (l1, p1) \<Rightarrow>
          (case submitForm_enter None p1 of
             (l2, p2) \<Rightarrow>
               (case submitForm_send h api up l1 p2 of
                  (s1, p3) \<Rightarrow>
                    (case submitForm_send h api up l2 p3 of
                       (s2, p4) \<Rightarrow>
                         (case settle api l1 s1 p4 of
                            (out1, p5) \<Rightarrow>
                              (case settle api l2 s2 p5 of
                                 (out2, p6) \<Rightarrow> ((out1, out2), p6)))))))"


subsection \<open>Example pages\<close>

definition text_input :: "string \<Rightarrow> string \<Rightarrow> bool \<Rightarrow> control" where
  \<comment> \<open>\<open><input type="text" name=n value=v>\<close>, with or without \<open>required\<close>\<close>
  "text_input n v req =
     \<lparr>f_tag = ''INPUT'', f_type = ''text'', f_name = n, f_id = n, f_value = v,
      f_required = req, f_data_required = None, f_data_rules = None, f_allow_future = None,
      f_checked = False, f_disabled = False, f_files = [], f_options = [], f_label = None,
      f_placeholder = [], f_default_value = [], f_default_checked = False,
      f_class_invalid = False, f_class_valid = False\<rparr>"

definition radio_button :: "string \<Rightarrow> string \<Rightarrow> bool \<Rightarrow> control" where
  \<comment> \<open>\<open><input type="radio" name=n value=v>\<close>, checked or not\<close>
  "radio_button n v c =
     (text_input n v False)\<lparr>f_type := ''radio'', f_id := n @ ''_'' @ v, f_checked := c,
                             f_default_value := v\<rparr>"

definition csv_file_input :: "string \<Rightarrow> control" where
  \<comment> \<open>a file input holding one CSV file with the given text\<close>
  "csv_file_input text =
     (text_input ''csvFile'' ''C:/fakepath/drugs.csv'' False)
       \<lparr>f_type := ''file'',
        f_files := [\<lparr>file_name = ''drugs.csv'', file_size = length text,
                     file_type = ''text/csv'', file_text = text\<rparr>]\<rparr>"

definition example_page :: "string \<Rightarrow> control list \<Rightarrow> page" where
  \<comment> \<open>a page with one form of the given type, its controls children of the form element,
     a submit button labelled \<open>Save\<close>, an older draft of the form in storage and no
     global variable\<close>
  "example_page formType flds =
     \<lparr>pg_form = \<lparr>fm_id = ''intake'', fm_formType = Some formType, fm_clearOnSuccess = None,
                 fm_successRedirect = None, fm_fields = flds,
                 fm_layout = map Ctl [0..<length flds],
                 fm_button = Some \<lparr>b_disabled = False, b_text = ''Save''\<rparr>\<rparr>,
      pg_path = ''/intake.html'', pg_href = ''https://meditrack.example/intake.html'',
      pg_userAgent = ''Browser'', pg_now = 1793577600000,
      pg_now_iso = ''2026-11-02T00:00:00.000Z'',
      pg_storage = [(''meditrack_draft_intake'',
                     \<lparr>d_timestamp = 1793570000000, d_data = [(''ward'', VStr ''A'')],
                      d_url = ''/intake.html''\<rparr>)],
      pg_posts = [], pg_uploads = [], pg_notifications = [], pg_spinners = [],
      pg_next_id = 0, pg_focus = None, pg_redirect = None, pg_receipts = [],
      pg_globals = (\<lambda>name. None)\<rparr>"

definition backend_ok :: backend where
  \<comment> \<open>a backend that accepts every record\<close>
  "backend_ok i endpoint d = Response True (VObj [(''id'', VStr ''42'')]) None"

definition backend_down :: backend where
  \<comment> \<open>a backend that refuses every record\<close>
  "backend_down i endpoint d = Response False VUndefined (Some ''Service unavailable'')"

definition upload_ok :: uploader where
  "upload_ok file = Uploaded (VObj [(''name'', VStr (file_name file))])"

definition claim_csv :: string where
  \<comment> \<open>the header \<open>medicine,availability,datestocked\<close> and the row \<open>Aspirin,yes,2024-01-01\<close>\<close>
  "claim_csv = ''medicine,availability,datestocked'' @ [CHR 0x0A] @ ''Aspirin,yes,2024-01-01''"


definition stored_draft :: "page \<Rightarrow> draft option" where
  \<comment> \<open>\<open>JSON.parse(localStorage.getItem(storageKey))\<close> for the form of the page\<close>
  "stored_draft p = get_prop (pg_storage p) (draft_key (pg_form p))"

definition save_then_restore :: "page \<Rightarrow> page" where
  \<comment> \<open>\<open>saveDraft(form)\<close>, then \<open>restoreDraft(form, draftData)\<close> with the draft found in
     storage, if there is one\<close>
  "save_then_restore p =
     (let p1 = saveDraft p
      in case stored_draft p1 of None \<Rightarrow> p1 | Some draftData \<Rightarrow> restoreDraft draftData p1)"

definition valid_page :: page where
  \<comment> \<open>a clinic form whose only field, a required one, is filled in\<close>
  "valid_page = example_page ''clinicForm'' [text_input ''ward'' ''B2'' True]"

definition invalid_page :: page where
  \<comment> \<open>a clinic form with two required fields left empty\<close>
  "invalid_page =
     example_page ''clinicForm'' [text_input ''ward'' [] True, text_input ''bed'' [] True]"

definition radio_page :: page where
  \<comment> \<open>a clinic form with one radio group, its second button checked\<close>
  "radio_page =
     example_page ''clinicForm''
       [radio_button ''sex'' ''male'' False, radio_button ''sex'' ''female'' True]"


section \<open>Properties\<close>

subsection \<open>Error categorization\<close>

lemma categorizeError_network:
  "includes_str (toLowerCase (message e)) ''network'' \<Longrightarrow> categorizeError h e = NETWORK"
  by (simp add: categorizeError_def Let_def)

lemma categorizeError_401:
  assumes "code e = CodeNum (Fin 401)" and "etype e \<noteq> ''NetworkError''"
    and "\<not> includes_str (toLowerCase (message e)) ''network''"
    and "\<not> includes_str (toLowerCase (message e)) ''connection''"
    and "\<not> includes_str (toLowerCase (message e)) ''timeout''"
  shows "categorizeError h e = AUTH"
  using assms by (simp add: categorizeError_def Let_def js_ge_def)

text \<open>
  C2, as stated, fails: an error with code 401 whose message mentions the network is
  classified NETWORK, because the network test comes first; and an error with code 400
  and message "invalid" is classified API, because the HTTP status range 400 to 599 is
  tested before the validation keywords.
\<close>

theorem categorizeError_C2_counterexample:
  "categorizeError example_host
     \<lparr>message = ''Network request failed'', code = CodeNum (Fin 401), etype = ''Error''\<rparr> \<noteq> AUTH
   \<and> categorizeError example_host
     \<lparr>message = ''invalid'', code = CodeNum (Fin 400), etype = ''Error''\<rparr> \<noteq> VALIDATION"
  by code_simp

text \<open>
  C2, amended: categorizeError classifies every standardized error whose message contains
  "network" (case-insensitively) as NETWORK, and every one with code 401 as AUTH provided
  no network indicator precedes it: its type is not NetworkError and its message contains
  none of "network", "connection" and "timeout".
\<close>

theorem categorizeError_C2_amended:
  "(includes_str (toLowerCase (message e)) ''network'' \<longrightarrow> categorizeError h e = NETWORK) \<and>
   (code e = CodeNum (Fin 401) \<and> etype e \<noteq> ''NetworkError'' \<and>
    \<not> includes_str (toLowerCase (message e)) ''network'' \<and>
    \<not> includes_str (toLowerCase (message e)) ''connection'' \<and>
    \<not> includes_str (toLowerCase (message e)) ''timeout''
    \<longrightarrow> categorizeError h e = AUTH)"
  using categorizeError_network categorizeError_401 by blast

theorem categorizeError_C2_amended_witness:
  "includes_str (toLowerCase ''Network request failed'') ''network'' \<and>
   categorizeError example_host
     \<lparr>message = ''Network request failed'', code = CodeNum (Fin 401), etype = ''Error''\<rparr> = NETWORK \<and>
   categorizeError example_host
     \<lparr>message = ''Session expired'', code = CodeNum (Fin 401), etype = ''Error''\<rparr> = AUTH"
proof -
  let ?e1 = "\<lparr>message = ''Network request failed'', code = CodeNum (Fin 401), etype = ''Error''\<rparr>"
  let ?e2 = "\<lparr>message = ''Session expired'', code = CodeNum (Fin 401), etype = ''Error''\<rparr>"
  have h1: "includes_str (toLowerCase ''Network request failed'') ''network''" by code_simp
  have h2: "\<not> includes_str (toLowerCase ''Session expired'') ''network''"
    "\<not> includes_str (toLowerCase ''Session expired'') ''connection''"
    "\<not> includes_str (toLowerCase ''Session expired'') ''timeout''" by code_simp+
  from categorizeError_C2_amended [of ?e1 example_host] h1
  have a: "categorizeError example_host ?e1 = NETWORK" by simp
  from categorizeError_C2_amended [of ?e2 example_host] h2
  have b: "categorizeError example_host ?e2 = AUTH" by simp
  from h1 a b show ?thesis by blast
qed

subsection \<open>Patient identifiers\<close>

lemma dropWhile_id: "list_all (\<lambda>c. \<not> P c) xs \<Longrightarrow> dropWhile P xs = xs"
  by (cases xs) auto

lemma trim_id: "list_all (\<lambda>c. \<not> is_space c) v \<Longrightarrow> trim v = v"
  by (simp add: trim_def dropWhile_id list_all_iff)

lemma toUpperCase_id: "list_all (\<lambda>c. \<not> is_lower c) v \<Longrightarrow> toUpperCase v = v"
  by (induction v) (auto simp: toUpperCase_def upper_char_def)

lemma alnum_upper_not_space: "alnum_upper c \<Longrightarrow> \<not> is_space c"
  by (auto simp: alnum_upper_def is_upper_def is_digit_def is_space_def)

lemma alnum_upper_not_lower: "alnum_upper c \<Longrightarrow> \<not> is_lower c"
  by (auto simp: alnum_upper_def is_upper_def is_digit_def is_lower_def)

lemma patient_pattern_clean:
  assumes "patient_pattern v" shows "toUpperCase (trim v) = v"
proof -
  from assms have a: "list_all alnum_upper v"
    by (simp add: patient_pattern_def class_between_def)
  then have "list_all (\<lambda>c. \<not> is_space c) v" "list_all (\<lambda>c. \<not> is_lower c) v"
    by (auto simp: list_all_iff alnum_upper_not_space alnum_upper_not_lower)
  then show ?thesis by (simp add: trim_id toUpperCase_id)
qed

lemma patientId_test_imp_pattern: "patientId_test v \<Longrightarrow> patient_pattern v"
proof -
  assume a: "patientId_test v"
  then have "list_all alnum_upper (take 2 v)" "list_all alnum_upper (drop 2 v)"
    by (auto simp: patientId_test_def alnum_upper_def list_all_iff)
  then have "list_all alnum_upper (take 2 v @ drop 2 v)"
    by (simp only: list_all_append)
  with a show ?thesis
    by (simp add: patient_pattern_def class_between_def patientId_test_def)
qed

lemma validateMedicalId_patient:
  "patient_pattern v \<Longrightarrow> mid_isValid (validateMedicalId (Some v) ''patient'')"
proof -
  assume a: "patient_pattern v"
  then have "v \<noteq> []" by (auto simp: patient_pattern_def class_between_def)
  with a patient_pattern_clean [OF a] show ?thesis
    by (simp add: validateMedicalId_def check_medical_id_def)
qed

text \<open>
  C3, as stated, fails on both patient-id checks. The registry rule
  \<open>medicalRules.patientId\<close> rejects \<open>ABCDEF\<close>, which matches \<open>^[A-Z0-9]{6,12}$\<close>;
  and \<open>validateMedicalId\<close> trims and upper-cases before matching, so it accepts
  \<open>ab1234\<close>, which fails the pattern.
\<close>

theorem patientId_C3_counterexample:
  "patient_pattern ''ABCDEF'' \<and> \<not> patientId_test ''ABCDEF'' \<and>
   \<not> patient_pattern ''ab1234'' \<and> mid_isValid (validateMedicalId (Some ''ab1234'') ''patient'')"
  by code_simp

text \<open>
  C3, amended: the patient-id rule of the rule registry reports invalid every string that
  fails \<open>^[A-Z0-9]{6,12}$\<close>, and reports valid exactly the strings of two upper-case
  letters followed by six digits (so not every string matching the pattern);
  \<open>validateMedicalId\<close> with type patient reports valid every string matching the pattern.
\<close>

theorem patientId_C3_amended:
  "(\<not> patient_pattern v \<longrightarrow> \<not> patientId_test v) \<and>
   (patientId_test v \<longleftrightarrow>
      length v = 8 \<and> list_all is_upper (take 2 v) \<and> list_all is_digit (drop 2 v)) \<and>
   (patient_pattern v \<longrightarrow> mid_isValid (validateMedicalId (Some v) ''patient''))"
  using patientId_test_imp_pattern validateMedicalId_patient
  by (auto simp: patientId_test_def)

theorem patientId_C3_amended_witness:
  "\<not> patient_pattern ''AB12'' \<and> \<not> patientId_test ''AB12'' \<and>
   patientId_test ''AB123456'' \<and>
   patient_pattern ''AB123456'' \<and> mid_isValid (validateMedicalId (Some ''AB123456'') ''patient'')"
proof -
  have h1: "\<not> patient_pattern ''AB12''" by code_simp
  have h2: "patient_pattern ''AB123456''" by code_simp
  have h3: "length ''AB123456'' = 8 \<and> list_all is_upper (take 2 ''AB123456'') \<and> list_all is_digit (drop 2 ''AB123456'')"
    by code_simp
  from patientId_C3_amended [of "''AB12''"] h1 have a: "\<not> patientId_test ''AB12''" by blast
  from patientId_C3_amended [of "''AB123456''"] h2 h3
  have b: "patientId_test ''AB123456''" "mid_isValid (validateMedicalId (Some ''AB123456'') ''patient'')"
    by blast+
  from h1 h2 a b show ?thesis by blast
qed

subsection \<open>Field validation\<close>

lemma FormValidator_skip:
  "trim (f_value f) = [] \<and> ''required'' \<notin> set (getFieldRules f) \<Longrightarrow>
   FormValidator_validateField h f = (Inr True, FormValidator_clearFieldError f)"
  by (simp add: FormValidator_validateField_def Let_def)

lemma FormValidator_throw:
  "\<not> (trim (f_value f) = [] \<and> ''required'' \<notin> set (getFieldRules f)) \<Longrightarrow>
   apply_rules h (trim (f_value f)) (getFieldRules f) = Inl e \<Longrightarrow>
   FormValidator_validateField h f = (Inl e, f)"
  by (auto simp add: FormValidator_validateField_def Let_def)

lemma FormValidator_ok:
  "\<not> (trim (f_value f) = [] \<and> ''required'' \<notin> set (getFieldRules f)) \<Longrightarrow>
   apply_rules h (trim (f_value f)) (getFieldRules f) = Inr [] \<Longrightarrow>
   FormValidator_validateField h f = (Inr True, showFieldSuccess f)"
  by (auto simp add: FormValidator_validateField_def Let_def)

lemma FormValidator_bad:
  "\<not> (trim (f_value f) = [] \<and> ''required'' \<notin> set (getFieldRules f)) \<Longrightarrow>
   apply_rules h (trim (f_value f)) (getFieldRules f) = Inr (m # ms) \<Longrightarrow>
   FormValidator_validateField h f = (Inr False, FormValidator_showFieldError f m)"
  by (auto simp add: FormValidator_validateField_def Let_def)

lemma display_keeps_input:
  "f_value (FormValidator_clearFieldError f) = f_value f"
  "getFieldRules (FormValidator_clearFieldError f) = getFieldRules f"
  "f_value (showFieldSuccess f) = f_value f"
  "getFieldRules (showFieldSuccess f) = getFieldRules f"
  "f_value (FormValidator_showFieldError f m) = f_value f"
  "getFieldRules (FormValidator_showFieldError f m) = getFieldRules f"
  by (simp_all add: FormValidator_clearFieldError_def showFieldSuccess_def
        FormValidator_showFieldError_def getFieldRules_def Let_def)

lemma clear_idem:
  "length (f_feedback f) \<le> 1 \<Longrightarrow>
   FormValidator_clearFieldError (FormValidator_clearFieldError f) = FormValidator_clearFieldError f"
  by (cases "f_feedback f") (simp_all add: FormValidator_clearFieldError_def)

lemma success_idem:
  "length (f_feedback f) \<le> 1 \<Longrightarrow> showFieldSuccess (showFieldSuccess f) = showFieldSuccess f"
  by (cases "f_feedback f") (simp_all add: showFieldSuccess_def FormValidator_clearFieldError_def Let_def)

lemma error_idem:
  "length (f_feedback f) \<le> 1 \<Longrightarrow>
   FormValidator_showFieldError (FormValidator_showFieldError f m) m = FormValidator_showFieldError f m"
  by (cases "f_feedback f")
     (simp_all add: FormValidator_showFieldError_def FormValidator_clearFieldError_def Let_def)

lemma display_feedback:
  assumes "length (f_feedback f) \<le> 1"
  shows "length (f_feedback (FormValidator_clearFieldError f)) \<le> 1"
    and "length (f_feedback (showFieldSuccess f)) \<le> 1"
    and "length (f_feedback (FormValidator_showFieldError f m)) \<le> 1"
  using assms
  by (cases "f_feedback f";
      simp add: FormValidator_clearFieldError_def showFieldSuccess_def
        FormValidator_showFieldError_def Let_def)+

lemma FormValidator_validateField_idem:
  assumes "length (f_feedback f) \<le> 1"
  shows "FormValidator_validateField h (snd (FormValidator_validateField h f)) =
           FormValidator_validateField h f \<and>
         length (f_feedback (snd (FormValidator_validateField h f))) \<le> 1"
proof (cases "trim (f_value f) = [] \<and> ''required'' \<notin> set (getFieldRules f)")
  case True
  then have "trim (f_value (FormValidator_clearFieldError f)) = [] \<and>
      ''required'' \<notin> set (getFieldRules (FormValidator_clearFieldError f))"
    by (simp add: display_keeps_input)
  from FormValidator_skip [OF this, of h] FormValidator_skip [OF True, of h] assms
    display_feedback [OF assms]
  show ?thesis by (simp add: clear_idem)
next
  case False
  show ?thesis
  proof (cases "apply_rules h (trim (f_value f)) (getFieldRules f)")
    case (Inl e)
    from FormValidator_throw [OF False Inl] assms show ?thesis by simp
  next
    case (Inr es)
    show ?thesis
    proof (cases es)
      case Nil
      let ?g = "showFieldSuccess f"
      from False have c: "\<not> (trim (f_value ?g) = [] \<and> ''required'' \<notin> set (getFieldRules ?g))"
        by (simp add: display_keeps_input)
      from Inr Nil have a: "apply_rules h (trim (f_value ?g)) (getFieldRules ?g) = Inr []"
        by (simp add: display_keeps_input)
      from Inr Nil have b: "apply_rules h (trim (f_value f)) (getFieldRules f) = Inr []" by simp
      from FormValidator_ok [OF c a] FormValidator_ok [OF False b] assms display_feedback [OF assms]
      show ?thesis by (simp add: success_idem)
    next
      case (Cons m ms)
      let ?g = "FormValidator_showFieldError f m"
      from False have c: "\<not> (trim (f_value ?g) = [] \<and> ''required'' \<notin> set (getFieldRules ?g))"
        by (simp add: display_keeps_input)
      from Inr Cons have a: "apply_rules h (trim (f_value ?g)) (getFieldRules ?g) = Inr (m # ms)"
        by (simp add: display_keeps_input)
      from Inr Cons have b: "apply_rules h (trim (f_value f)) (getFieldRules f) = Inr (m # ms)"
        by simp
      from FormValidator_bad [OF c a] FormValidator_bad [OF False b] assms
        display_feedback(3) [OF assms, of m]
      show ?thesis by (simp add: error_idem)
    qed
  qed
qed

text \<open>
  C8, as stated, fails for the form handler: it takes a field for required not only when
  the field is marked so, but also when its name is listed in the configuration
  (\<open>patientId\<close>, \<open>sampleId\<close>, \<open>collectionDate\<close>). A field named \<open>patientId\<close> that
  carries no required mark of any kind and whose value is empty is reported invalid by
  \<open>FormHandler.validateField\<close>, while \<open>FormValidator.validateField\<close> reports it valid.
\<close>

theorem optional_empty_field_C8_counterexample:
  "\<not> f_required (example_field\<lparr>f_name := ''patientId'', f_value := [], f_data_rules := None\<rparr>) \<and>
   f_data_required (example_field\<lparr>f_name := ''patientId'', f_value := [], f_data_rules := None\<rparr>) = None \<and>
   ''required'' \<notin> set (getFieldRules
     (example_field\<lparr>f_name := ''patientId'', f_value := [], f_data_rules := None\<rparr>)) \<and>
   trim (f_value (example_field\<lparr>f_name := ''patientId'', f_value := [], f_data_rules := None\<rparr>)) = [] \<and>
   fst (FormValidator_validateField example_host
     (example_field\<lparr>f_name := ''patientId'', f_value := [], f_data_rules := None\<rparr>)) = Inr True \<and>
   FormHandler_validateField example_host
     (example_field\<lparr>f_name := ''patientId'', f_value := [], f_data_rules := None\<rparr>) =
     \<lparr>isValid = False, errors = [''patientId is required''], warnings = []\<rparr>"
  by (intro conjI; code_simp)

text \<open>
  C8, amended: a field whose trimmed value is empty is reported valid at once, whatever
  its type and whatever rules are attached to it, by \<open>FormValidator.validateField\<close> when
  its rule list does not contain \<open>required\<close> (from the attribute, from \<open>data-required\<close>
  or from \<open>data-rules\<close>), the error display being cleared, and by
  \<open>FormHandler.validateField\<close> when it has no \<open>required\<close> attribute and its name (its id,
  when it has no name) is none of \<open>patientId\<close>, \<open>sampleId\<close> and \<open>collectionDate\<close>, the
  result carrying neither errors nor warnings.
\<close>

theorem optional_empty_field_C8_amended:
  "(trim (f_value f) = [] \<and> ''required'' \<notin> set (getFieldRules f) \<longrightarrow>
      FormValidator_validateField h f = (Inr True, FormValidator_clearFieldError f)) \<and>
   (trim (f_value f) = [] \<and> \<not> f_required f \<and>
    (if f_name f \<noteq> [] then f_name f else f_id f) \<notin>
      {''patientId'', ''sampleId'', ''collectionDate''} \<longrightarrow>
      FormHandler_validateField h f = \<lparr>isValid = True, errors = [], warnings = []\<rparr>)"
  using FormValidator_skip [of f h]
  by (simp add: FormHandler_validateField_def isRequired_def config_validation_required_def Let_def)

theorem optional_empty_field_C8_amended_witness:
  "trim (f_value (example_field\<lparr>f_value := ''  '', f_type := ''email'', f_data_rules := Some ''patientId,pattern:x''\<rparr>)) = [] \<and>
   ''required'' \<notin> set (getFieldRules (example_field\<lparr>f_value := ''  '', f_type := ''email'', f_data_rules := Some ''patientId,pattern:x''\<rparr>)) \<and>
   \<not> f_required (example_field\<lparr>f_value := ''  '', f_type := ''email'', f_data_rules := Some ''patientId,pattern:x''\<rparr>) \<and>
   f_name (example_field\<lparr>f_value := ''  '', f_type := ''email'', f_data_rules := Some ''patientId,pattern:x''\<rparr>) = ''ward'' \<and>
   fst (FormValidator_validateField example_host
     (example_field\<lparr>f_value := ''  '', f_type := ''email'', f_data_rules := Some ''patientId,pattern:x''\<rparr>)) = Inr True \<and>
   isValid (FormHandler_validateField example_host
     (example_field\<lparr>f_value := ''  '', f_type := ''email'', f_data_rules := Some ''patientId,pattern:x''\<rparr>))"
proof -
  let ?f = "example_field\<lparr>f_value := ''  '', f_type := ''email'', f_data_rules := Some ''patientId,pattern:x''\<rparr>"
  have h1: "trim (f_value ?f) = []" by code_simp
  have h2: "''required'' \<notin> set (getFieldRules ?f)" by code_simp
  have h3: "\<not> f_required ?f" by (simp add: example_field_def)
  have h4: "f_name ?f = ''ward''" by (simp add: example_field_def)
  from h4 have h5: "(if f_name ?f \<noteq> [] then f_name ?f else f_id ?f) \<notin>
      {''patientId'', ''sampleId'', ''collectionDate''}" by simp
  from optional_empty_field_C8_amended [of ?f example_host] h1 h2 h3 h5
  have "FormValidator_validateField example_host ?f = (Inr True, FormValidator_clearFieldError ?f)"
    and "FormHandler_validateField example_host ?f = \<lparr>isValid = True, errors = [], warnings = []\<rparr>"
    by blast+
  with h1 h2 h3 h4 show ?thesis by simp
qed

text \<open>
  C9, as stated, fails when the parent of the field holds more than one
  \<open>.invalid-feedback\<close> node: each invocation removes only the first of them before it
  appends its own message, so the second invocation leaves another display than the first.
\<close>

theorem validateField_twice_C9_counterexample:
  "f_feedback (snd (FormValidator_validateField example_host
      (example_field\<lparr>f_feedback := [''Ward is required'', ''Bed is required'']\<rparr>))) =
     [''Bed is required'', patientId_message] \<and>
   f_feedback (snd (FormValidator_validateField example_host
      (snd (FormValidator_validateField example_host
        (example_field\<lparr>f_feedback := [''Ward is required'', ''Bed is required'']\<rparr>))))) =
     [patientId_message, patientId_message]"
  by code_simp

text \<open>
  C9, amended: when the parent of the field holds at most one \<open>.invalid-feedback\<close> node,
  invoking the field validator of the validation library twice in succession on the
  unchanged field gives the same result (the same boolean, or the same exception) and the
  same error display both times, with at most one error message node.
\<close>

theorem validateField_twice_C9_amended:
  assumes "length (f_feedback f) \<le> 1"
  shows "FormValidator_validateField h (snd (FormValidator_validateField h f)) =
           FormValidator_validateField h f \<and>
         length (f_feedback (snd (FormValidator_validateField h f))) \<le> 1"
  using FormValidator_validateField_idem [OF assms] .

theorem validateField_twice_C9_amended_witness:
  "length (f_feedback (example_field\<lparr>f_feedback := [''Ward is required'']\<rparr>)) \<le> 1 \<and>
   FormValidator_validateField example_host
     (snd (FormValidator_validateField example_host (example_field\<lparr>f_feedback := [''Ward is required'']\<rparr>))) =
   FormValidator_validateField example_host (example_field\<lparr>f_feedback := [''Ward is required'']\<rparr>) \<and>
   f_feedback (snd (FormValidator_validateField example_host
     (example_field\<lparr>f_feedback := [''Ward is required'']\<rparr>))) = [patientId_message]"
proof -
  let ?f = "example_field\<lparr>f_feedback := [''Ward is required'']\<rparr>"
  have h: "length (f_feedback ?f) \<le> 1" by simp
  have e: "f_feedback (snd (FormValidator_validateField example_host ?f)) = [patientId_message]"
    by code_simp
  from validateField_twice_C9_amended [OF h, of example_host] h e show ?thesis by blast
qed

lemma name_validation_keeps_errors:
  "\<exists>more. errors (name_validation h f v r) = errors r @ more"
  by (simp add: name_validation_def Let_def add_error_def add_warning_def)

lemma name_validation_keeps_invalid:
  "\<not> isValid r \<Longrightarrow> \<not> isValid (name_validation h f v r)"
  by (simp add: name_validation_def Let_def add_error_def add_warning_def)

text \<open>
  C10: for a field of input type number whose trimmed value is not empty and converts to
  a number below zero, the field validator of the form handler reports the field invalid,
  and the first error is the positive-number message. No rule annotation is consulted.
\<close>

theorem negative_number_rejected_C10:
  assumes "f_type f = ''number''"
    and "trim (f_value f) \<noteq> []"
    and "to_number h (trim (f_value f)) \<noteq> NaN"
    and "js_lt (to_number h (trim (f_value f))) (Fin 0)"
  shows "\<not> isValid (FormHandler_validateField h f) \<and>
         (\<exists>more. errors (FormHandler_validateField h f) =
            ''Please enter a valid positive number'' # more)"
proof -
  let ?v = "trim (f_value f)"
  let ?r = "type_validation h f ?v \<lparr>isValid = True, errors = [], warnings = []\<rparr>"
  from assms have t: "?r = \<lparr>isValid = False, errors = [''Please enter a valid positive number''],
      warnings = []\<rparr>"
    by (simp add: type_validation_def add_error_def)
  from assms have v: "FormHandler_validateField h f = name_validation h f ?v ?r"
    by (simp add: FormHandler_validateField_def Let_def)
  from name_validation_keeps_errors [of h f ?v ?r] name_validation_keeps_invalid [of ?r h f ?v] t v
  show ?thesis by auto
qed

theorem negative_number_rejected_C10_witness:
  "f_type (example_field\<lparr>f_type := ''number'', f_value := ''-5'', f_data_rules := None\<rparr>) = ''number'' \<and>
   trim ''-5'' \<noteq> [] \<and> to_number example_host (trim ''-5'') = Fin (- 5) \<and>
   \<not> isValid (FormHandler_validateField example_host
        (example_field\<lparr>f_type := ''number'', f_value := ''-5'', f_data_rules := None\<rparr>)) \<and>
   (\<exists>more. errors (FormHandler_validateField example_host
        (example_field\<lparr>f_type := ''number'', f_value := ''-5'', f_data_rules := None\<rparr>)) =
      ''Please enter a valid positive number'' # more)"
proof -
  let ?f = "example_field\<lparr>f_type := ''number'', f_value := ''-5'', f_data_rules := None\<rparr>"
  have h1: "f_type ?f = ''number''" by simp
  have h2: "trim (f_value ?f) = ''-5''" by code_simp
  have h3: "to_number example_host ''-5'' = Fin (- 5)" by (simp add: example_host_def)
  from h2 have h4: "trim (f_value ?f) \<noteq> []" by simp
  from h2 h3 have h5: "to_number example_host (trim (f_value ?f)) \<noteq> NaN" by simp
  from h2 h3 have h6: "js_lt (to_number example_host (trim (f_value ?f))) (Fin 0)" by simp
  from negative_number_rejected_C10 [OF h1 h4 h5 h6] h1 h2 h3 show ?thesis by simp
qed

subsection \<open>Submission\<close>

lemma display_not_read_parts:
  "isRequired (f\<lparr>f_class_invalid := a\<rparr>) = isRequired f"
  "getFieldLabel (f\<lparr>f_class_invalid := a\<rparr>) = getFieldLabel f"
  "validateFileField (f\<lparr>f_class_invalid := a\<rparr>) = validateFileField f"
  "name_validation h (f\<lparr>f_class_invalid := a\<rparr>) v r = name_validation h f v r"
  by (simp_all add: isRequired_def getFieldLabel_def validateFileField_def name_validation_def
      Let_def split del: if_split cong: if_cong)

lemma display_not_read_type:
  "type_validation h (f\<lparr>f_class_invalid := a\<rparr>) v r = type_validation h f v r"
  by (simp add: type_validation_def display_not_read_parts Let_def split del: if_split cong: if_cong)

lemma display_not_read:
  "FormHandler_validateField h (f\<lparr>f_class_invalid := a\<rparr>) = FormHandler_validateField h f"
  "field_entries (g\<lparr>f_class_invalid := a\<rparr>) = field_entries g"
  "is_file_input (g\<lparr>f_class_invalid := a\<rparr>) = is_file_input g"
proof -
  show "FormHandler_validateField h (f\<lparr>f_class_invalid := a\<rparr>) = FormHandler_validateField h f"
    by (simp add: FormHandler_validateField_def display_not_read_parts display_not_read_type
        Let_def split del: if_split cong: if_cong)
qed (simp_all add: field_entries_def is_file_input_def Let_def split del: if_split cong: if_cong)

lemma same_inputs_refl: "same_inputs flds flds"
  by (simp add: same_inputs_def)

lemma same_inputs_trans:
  "same_inputs a b \<Longrightarrow> same_inputs b c \<Longrightarrow> same_inputs a c"
  by (simp add: same_inputs_def)

lemma same_inputs_sym: "same_inputs a b \<Longrightarrow> same_inputs b a"
  by (simp add: same_inputs_def)

lemma same_inputs_length: "same_inputs a b \<Longrightarrow> length a = length b"
  unfolding same_inputs_def by (rule map_eq_imp_length_eq)

lemma set_class_invalid_same: "same_inputs (set_class_invalid i b flds) flds"
  by (simp add: same_inputs_def set_class_invalid_def map_update list_update_same_conv)

lemma same_inputs_map:
  assumes "same_inputs a b"
    and "\<And>f. g (f\<lparr>f_class_invalid := False\<rparr>) = g f"
  shows "map g a = map g b"
proof -
  have "map g a = map g (map (\<lambda>f. f\<lparr>f_class_invalid := False\<rparr>) a)"
    by (simp add: assms(2))
  also have "\<dots> = map g (map (\<lambda>f. f\<lparr>f_class_invalid := False\<rparr>) b)"
    using assms(1) by (simp add: same_inputs_def)
  also have "\<dots> = map g b" by (simp add: assms(2))
  finally show ?thesis .
qed

lemma same_inputs_reads:
  assumes "same_inputs a b"
  shows "map (FormHandler_validateField h) a = map (FormHandler_validateField h) b"
    and "map field_entries a = map field_entries b"
    and "map is_file_input a = map is_file_input b"
    and "map f_files a = map f_files b"
    and "map f_name a = map f_name b"
    and "map f_value a = map f_value b"
  by (rule same_inputs_map [OF assms]; simp add: display_not_read)+

lemma same_inputs_nth:
  assumes "same_inputs a b" and "i < length b"
  shows "FormHandler_validateField h (a ! i) = FormHandler_validateField h (b ! i)"
proof -
  from same_inputs_length [OF assms(1)] assms(2) have "i < length a" by simp
  with assms(2) same_inputs_reads(1) [OF assms(1), of h] show ?thesis
    by (metis nth_map)
qed

lemma same_inputs_find:
  "same_inputs a b \<Longrightarrow>
   map_option f_value (find (\<lambda>f. f_name f = n) a) = map_option f_value (find (\<lambda>f. f_name f = n) b)"
proof (induction a arbitrary: b)
  case Nil
  then show ?case by (simp add: same_inputs_def)
next
  case (Cons x xs)
  from Cons.prems obtain y ys where b: "b = y # ys"
    by (cases b) (simp_all add: same_inputs_def)
  from Cons.prems b have t: "same_inputs xs ys" by (simp add: same_inputs_def)
  from same_inputs_reads(5,6) [OF Cons.prems] b
  have e: "f_name x = f_name y" "f_value x = f_value y" by simp_all
  from Cons.IH [OF t] e b show ?case by simp
qed

lemma display_keeps_form:
  "same_inputs (fm_fields (FormHandler_showFieldError i m fm)) (fm_fields fm)"
  "fm_button (FormHandler_showFieldError i m fm) = fm_button fm"
  "fm_formType (FormHandler_showFieldError i m fm) = fm_formType fm"
  "fm_id (FormHandler_showFieldError i m fm) = fm_id fm"
  "same_inputs (fm_fields (FormHandler_clearFieldError i fm)) (fm_fields fm)"
  "fm_button (FormHandler_clearFieldError i fm) = fm_button fm"
  "fm_formType (FormHandler_clearFieldError i fm) = fm_formType fm"
  "fm_id (FormHandler_clearFieldError i fm) = fm_id fm"
  by (simp_all add: FormHandler_showFieldError_def FormHandler_clearFieldError_def
      set_class_invalid_same)

lemma validate_input_form:
  "same_inputs (fm_fields (snd (validate_input h i (r, fm)))) (fm_fields fm)"
  "fm_button (snd (validate_input h i (r, fm))) = fm_button fm"
  "fm_formType (snd (validate_input h i (r, fm))) = fm_formType fm"
  "fm_id (snd (validate_input h i (r, fm))) = fm_id fm"
  by (simp_all add: validate_input_def Let_def display_keeps_form)

lemma validate_input_result:
  "fst (validate_input h i (r, fm)) =
     r\<lparr>errors := errors r @
          (if \<not> isValid (FormHandler_validateField h (fm_fields fm ! i))
           then errors (FormHandler_validateField h (fm_fields fm ! i)) else []),
       warnings := warnings r @ warnings (FormHandler_validateField h (fm_fields fm ! i))\<rparr>"
  by (simp add: validate_input_def Let_def)

lemma loop_form:
  "same_inputs (fm_fields (snd (fold (validate_input h) is (r, fm)))) (fm_fields fm) \<and>
   fm_button (snd (fold (validate_input h) is (r, fm))) = fm_button fm \<and>
   fm_formType (snd (fold (validate_input h) is (r, fm))) = fm_formType fm \<and>
   fm_id (snd (fold (validate_input h) is (r, fm))) = fm_id fm"
proof (induction "is" arbitrary: r fm)
  case Nil
  show ?case by (simp add: same_inputs_refl)
next
  case (Cons i "is")
  obtain r1 fm1 where s: "validate_input h i (r, fm) = (r1, fm1)"
    by (cases "validate_input h i (r, fm)")
  from validate_input_form [of h i r fm] s
  have k: "same_inputs (fm_fields fm1) (fm_fields fm)" "fm_button fm1 = fm_button fm"
    "fm_formType fm1 = fm_formType fm" "fm_id fm1 = fm_id fm" by simp_all
  from Cons.IH [of r1 fm1] k s show ?case
    by (auto intro: same_inputs_trans)
qed

lemma loop_result:
  assumes "same_inputs (fm_fields fm) flds" and "\<forall>i \<in> set is. i < length flds"
  shows "fst (fold (validate_input h) is (r, fm)) =
     r\<lparr>errors := errors r @
          concat (map (\<lambda>i. if \<not> isValid (FormHandler_validateField h (flds ! i))
                            then errors (FormHandler_validateField h (flds ! i)) else []) is),
       warnings := warnings r @
          concat (map (\<lambda>i. warnings (FormHandler_validateField h (flds ! i))) is)\<rparr>"
  using assms
proof (induction "is" arbitrary: r fm)
  case Nil
  show ?case by simp
next
  case (Cons i "is")
  obtain r1 fm1 where s: "validate_input h i (r, fm) = (r1, fm1)"
    by (cases "validate_input h i (r, fm)")
  from Cons.prems have i: "i < length flds" by simp
  from same_inputs_nth [OF Cons.prems(1) i]
  have v: "FormHandler_validateField h (fm_fields fm ! i) = FormHandler_validateField h (flds ! i)" .
  from validate_input_result [of h i r fm] s v
  have r1: "r1 = r\<lparr>errors := errors r @
          (if \<not> isValid (FormHandler_validateField h (flds ! i))
           then errors (FormHandler_validateField h (flds ! i)) else []),
       warnings := warnings r @ warnings (FormHandler_validateField h (flds ! i))\<rparr>"
    by simp
  from validate_input_form(1) [of h i r fm] s Cons.prems(1)
  have k: "same_inputs (fm_fields fm1) flds" by (auto intro: same_inputs_trans)
  from Cons.prems(2) have rest: "\<forall>i \<in> set is. i < length flds" by simp
  from Cons.IH [OF k rest, of r1] s show ?case
    by (simp add: r1)
qed

lemma value_by_name_reads:
  assumes "same_inputs (fm_fields fm') (fm_fields fm)"
  shows "value_by_name fm' n = value_by_name fm n"
  using same_inputs_find [OF assms, of n]
  by (cases "find (\<lambda>f. f_name f = n) (fm_fields fm')";
      cases "find (\<lambda>f. f_name f = n) (fm_fields fm)";
      simp add: value_by_name_def)

lemma validateCrossFields_reads:
  "same_inputs (fm_fields fm') (fm_fields fm) \<Longrightarrow>
   validateCrossFields h fm' = validateCrossFields h fm"
  by (simp add: validateCrossFields_def value_by_name_reads)

lemma validateForm_result:
  "fst (FormHandler_validateForm h fm) =
     (let fieldResults = map (FormHandler_validateField h) (fm_fields fm);
          crossFieldResult = validateCrossFields h fm;
          errs = concat (map (\<lambda>r. if \<not> isValid r then errors r else []) fieldResults) @
                 (if \<not> isValid crossFieldResult then errors crossFieldResult else [])
      in \<lparr>isValid = (errs = []), errors = errs,
          warnings = concat (map warnings fieldResults)\<rparr>)"
proof -
  let ?r0 = "\<lparr>isValid = True, errors = [], warnings = []\<rparr>"
  let ?loop = "fold (validate_input h) [0..<length (fm_fields fm)] (?r0, fm)"
  let ?V = "FormHandler_validateField h"
  define E where "E = concat (map (\<lambda>r. if \<not> isValid r then errors r else [])
      (map ?V (fm_fields fm)))"
  define W where "W = concat (map warnings (map ?V (fm_fields fm)))"
  define X where "X = (if \<not> isValid (validateCrossFields h fm)
      then errors (validateCrossFields h fm) else [])"
  have a: "fst ?loop =
     ?r0\<lparr>errors := errors ?r0 @
          concat (map (\<lambda>i. if \<not> isValid (?V (fm_fields fm ! i))
                            then errors (?V (fm_fields fm ! i)) else []) [0..<length (fm_fields fm)]),
       warnings := warnings ?r0 @
          concat (map (\<lambda>i. warnings (?V (fm_fields fm ! i))) [0..<length (fm_fields fm)])\<rparr>"
    by (rule loop_result) (simp_all add: same_inputs_refl)
  have m1: "map (\<lambda>i. if \<not> isValid (?V (fm_fields fm ! i))
                      then errors (?V (fm_fields fm ! i)) else []) [0..<length (fm_fields fm)] =
            map (\<lambda>r. if \<not> isValid r then errors r else []) (map ?V (fm_fields fm))"
    by (rule nth_equalityI) simp_all
  have m2: "map (\<lambda>i. warnings (?V (fm_fields fm ! i))) [0..<length (fm_fields fm)] =
            map warnings (map ?V (fm_fields fm))"
    by (rule nth_equalityI) simp_all
  have l: "fst ?loop = \<lparr>isValid = True, errors = E, warnings = W\<rparr>"
    unfolding a m1 m2 E_def [symmetric] W_def [symmetric] by simp
  from loop_form [of h "[0..<length (fm_fields fm)]" ?r0 fm]
  have c: "validateCrossFields h (snd ?loop) = validateCrossFields h fm"
    by (simp add: validateCrossFields_reads)
  have "fst (FormHandler_validateForm h fm) =
      (fst ?loop)\<lparr>isValid := (errors (fst ?loop) @ X = []), errors := errors (fst ?loop) @ X\<rparr>"
    by (simp add: FormHandler_validateForm_def split_beta Let_def c X_def)
  then have "fst (FormHandler_validateForm h fm) =
      \<lparr>isValid = (E @ X = []), errors = E @ X, warnings = W\<rparr>"
    by (simp add: l)
  then show ?thesis
    unfolding Let_def E_def [symmetric] W_def [symmetric] X_def [symmetric] .
qed

lemma validateForm_reads:
  assumes "same_inputs (fm_fields fm') (fm_fields fm)"
  shows "fst (FormHandler_validateForm h fm') = fst (FormHandler_validateForm h fm)"
  unfolding validateForm_result
  by (simp add: validateCrossFields_reads [OF assms] same_inputs_reads(1) [OF assms])

lemma validateForm_reads_fields:
  "fm_fields fm' = fm_fields fm \<Longrightarrow>
   fst (FormHandler_validateForm h fm') = fst (FormHandler_validateForm h fm)"
  by (rule validateForm_reads) (simp add: same_inputs_refl)

lemma validateForm_keeps:
  "same_inputs (fm_fields (snd (FormHandler_validateForm h fm))) (fm_fields fm)"
  "fm_button (snd (FormHandler_validateForm h fm)) = fm_button fm"
  "fm_formType (snd (FormHandler_validateForm h fm)) = fm_formType fm"
  "fm_id (snd (FormHandler_validateForm h fm)) = fm_id fm"
  using loop_form [of h "[0..<length (fm_fields fm)]" "\<lparr>isValid = True, errors = [], warnings = []\<rparr>" fm]
  by (simp_all add: FormHandler_validateForm_def split_beta Let_def)

lemma validateForm_again:
  "fst (FormHandler_validateForm h (snd (FormHandler_validateForm h fm))) =
   fst (FormHandler_validateForm h fm)"
  by (rule validateForm_reads) (rule validateForm_keeps)

lemma same_inputs_all:
  assumes "same_inputs a b"
    and "\<And>f. P (f\<lparr>f_class_invalid := False\<rparr>) = P f"
  shows "(\<forall>f \<in> set a. P f) = (\<forall>f \<in> set b. P f)"
proof -
  have "(\<forall>f \<in> set a. P f) = (\<forall>x \<in> set (map P a). x)" by simp
  also have "\<dots> = (\<forall>x \<in> set (map P b). x)"
    by (simp only: same_inputs_map [OF assms(1), of P, OF assms(2)])
  also have "\<dots> = (\<forall>f \<in> set b. P f)" by simp
  finally show ?thesis .
qed

lemma no_files_reads:
  assumes "same_inputs a b"
    and "\<forall>f \<in> set b. is_file_input f \<longrightarrow> f_files f = []"
  shows "\<forall>f \<in> set a. is_file_input f \<longrightarrow> f_files f = []"
  using same_inputs_all [OF assms(1), of "\<lambda>f. is_file_input f \<longrightarrow> f_files f = []"] assms(2)
  by (simp add: display_not_read)

lemma set_button_keeps:
  "fm_fields (pg_form (set_button u p)) = fm_fields (pg_form p)"
  "pg_posts (set_button u p) = pg_posts p"
  "pg_uploads (set_button u p) = pg_uploads p"
  "pg_focus (set_button u p) = pg_focus p"
  "pg_storage (set_button u p) = pg_storage p"
  "pg_globals (set_button u p) = pg_globals p"
  "pg_notifications (set_button u p) = pg_notifications p"
  "fm_formType (pg_form (set_button u p)) = fm_formType (pg_form p)"
  "fm_id (pg_form (set_button u p)) = fm_id (pg_form p)"
  "fm_button (pg_form (set_button u p)) = map_option u (fm_button (pg_form p))"
  by (simp_all add: set_button_def)

lemma showSpinner_keeps:
  "pg_form (snd (showSpinner p)) = pg_form p"
  "pg_posts (snd (showSpinner p)) = pg_posts p"
  "pg_uploads (snd (showSpinner p)) = pg_uploads p"
  "pg_focus (snd (showSpinner p)) = pg_focus p"
  "pg_storage (snd (showSpinner p)) = pg_storage p"
  "pg_globals (snd (showSpinner p)) = pg_globals p"
  "pg_notifications (snd (showSpinner p)) = pg_notifications p"
  by (simp_all add: showSpinner_def Let_def)

lemma hideSpinner_keeps:
  "pg_form (hideSpinner i p) = pg_form p"
  "pg_posts (hideSpinner i p) = pg_posts p"
  "pg_uploads (hideSpinner i p) = pg_uploads p"
  "pg_focus (hideSpinner i p) = pg_focus p"
  "pg_storage (hideSpinner i p) = pg_storage p"
  "pg_globals (hideSpinner i p) = pg_globals p"
  "pg_notifications (hideSpinner i p) = pg_notifications p"
  by (simp_all add: hideSpinner_def split: jsval.splits)

lemma notify_keeps:
  "pg_form (notify k m p) = pg_form p"
  "pg_posts (notify k m p) = pg_posts p"
  "pg_uploads (notify k m p) = pg_uploads p"
  "pg_focus (notify k m p) = pg_focus p"
  "pg_storage (notify k m p) = pg_storage p"
  "pg_globals (notify k m p) = pg_globals p"
  by (simp_all add: notify_def)

lemma enter_keeps:
  "fm_fields (pg_form (snd (submitForm_enter opt p))) = fm_fields (pg_form p)"
  "pg_posts (snd (submitForm_enter opt p)) = pg_posts p"
  "pg_uploads (snd (submitForm_enter opt p)) = pg_uploads p"
  "pg_focus (snd (submitForm_enter opt p)) = pg_focus p"
  "pg_storage (snd (submitForm_enter opt p)) = pg_storage p"
  "pg_globals (snd (submitForm_enter opt p)) = pg_globals p"
  "pg_notifications (snd (submitForm_enter opt p)) = pg_notifications p"
  "fm_formType (pg_form (snd (submitForm_enter opt p))) = fm_formType (pg_form p)"
  "l_formType (fst (submitForm_enter opt p)) = formType_or_generic (pg_form p)"
  "fm_button (pg_form (snd (submitForm_enter opt p))) =
     map_option (\<lambda>b. b\<lparr>b_disabled := True, b_text := ''Submitting...''\<rparr>) (fm_button (pg_form p))"
  by (simp_all add: submitForm_enter_def Let_def split_beta set_button_keeps showSpinner_keeps)

lemma catch_keeps:
  "fm_fields (pg_form (snd (submitForm_catch e p))) = fm_fields (pg_form p)"
  "pg_posts (snd (submitForm_catch e p)) = pg_posts p"
  "pg_uploads (snd (submitForm_catch e p)) = pg_uploads p"
  "pg_focus (snd (submitForm_catch e p)) = pg_focus p"
  "pg_storage (snd (submitForm_catch e p)) = pg_storage p"
  by (simp_all add: submitForm_catch_def Let_def set_button_keeps hideSpinner_keeps notify_keeps
      split: option.splits)

lemma catch_without_global:
  "pg_globals p ''loadingId'' = None \<Longrightarrow>
   submitForm_catch e p = (Rejected (ReferenceError ''loadingId is not defined''), p)"
  by (simp add: submitForm_catch_def)

lemma prepareFormData_reads:
  assumes "map field_entries (fm_fields (pg_form p')) = map field_entries (fm_fields (pg_form p))"
    and "fm_formType (pg_form p') = fm_formType (pg_form p)"
    and "pg_now_iso p' = pg_now_iso p" and "pg_userAgent p' = pg_userAgent p"
    and "pg_href p' = pg_href p"
  shows "prepareFormData p' False = prepareFormData p False"
  using assms by (simp add: prepareFormData_def formType_or_generic_def Let_def)

lemma handleFileUploads_none:
  "\<forall>f \<in> set flds. is_file_input f \<longrightarrow> f_files f = [] \<Longrightarrow>
   handleFileUploads up flds formData p = (Inr formData, p)"
  by (induction flds) auto

lemma send_invalid:
  assumes "\<not> isValid (fst (FormHandler_validateForm h (pg_form p)))"
  shows "pg_posts (snd (submitForm_send h api up l p)) = pg_posts p \<and>
         pg_uploads (snd (submitForm_send h api up l p)) = pg_uploads p \<and>
         pg_focus (snd (submitForm_send h api up l p)) = pg_focus p \<and>
         pg_storage (snd (submitForm_send h api up l p)) = pg_storage p \<and>
         same_inputs (fm_fields (pg_form (snd (submitForm_send h api up l p))))
           (fm_fields (pg_form p)) \<and>
         fst (submitForm_send h api up l p) =
           Settled (fst (submitForm_catch
             (Error (''Please correct the errors in the form: '' @
                     join '', '' (errors (fst (FormHandler_validateForm h (pg_form p))))))
             (p\<lparr>pg_form := snd (FormHandler_validateForm h (pg_form p))\<rparr>)))"
proof -
  let ?r = "fst (FormHandler_validateForm h (pg_form p))"
  let ?fm = "snd (FormHandler_validateForm h (pg_form p))"
  let ?e = "Error (''Please correct the errors in the form: '' @ join '', '' (errors ?r))"
  let ?p1 = "p\<lparr>pg_form := ?fm\<rparr>"
  from assms have s: "submitForm_send h api up l p =
      (Settled (fst (submitForm_catch ?e ?p1)), snd (submitForm_catch ?e ?p1))"
    by (simp add: submitForm_send_def Let_def split_beta)
  show ?thesis
    by (simp add: s catch_keeps validateForm_keeps)
qed

lemma send_valid:
  assumes "isValid (fst (FormHandler_validateForm h (pg_form p)))"
    and "l_formType l \<noteq> ''pharmacyCSV''"
    and "\<forall>f \<in> set (fm_fields (pg_form p)). is_file_input f \<longrightarrow> f_files f = []"
  shows "submitForm_send h api up l p =
           (Posting (length (pg_posts p)) (l_endpoint l) (prepareFormData p False),
            p\<lparr>pg_form := snd (FormHandler_validateForm h (pg_form p)),
              pg_posts := pg_posts p @ [(l_endpoint l, prepareFormData p False)]\<rparr>)"
proof -
  obtain r fm where v: "FormHandler_validateForm h (pg_form p) = (r, fm)"
    by (cases "FormHandler_validateForm h (pg_form p)")
  let ?p1 = "p\<lparr>pg_form := fm\<rparr>"
  from v validateForm_keeps [of h "pg_form p"]
  have k: "same_inputs (fm_fields fm) (fm_fields (pg_form p))"
    "fm_formType fm = fm_formType (pg_form p)" by simp_all
  have d: "prepareFormData ?p1 False = prepareFormData p False"
    by (rule prepareFormData_reads) (simp_all add: k same_inputs_reads(2) [OF k(1)])
  from assms(3) have n: "\<forall>f \<in> set (fm_fields fm). is_file_input f \<longrightarrow> f_files f = []"
    by (rule no_files_reads [OF k(1)])
  have u: "handleFileUploads up (fm_fields fm) (prepareFormData p False) ?p1 =
      (Inr (prepareFormData p False), ?p1)"
    by (rule handleFileUploads_none [OF n])
  from assms(1) v have r: "isValid r" by simp
  show ?thesis
    unfolding submitForm_send_def v
    using r assms(2) by (simp add: Let_def d u)
qed

lemma settle_settled: "settle api l (Settled out) p = (out, p)"
  by (simp add: settle_def)

lemma settle_posting:
  "settle api l (Posting i e d) p = submitForm_receive l (api i e d) p"
  by (simp add: settle_def)

lemma clearDraft_keeps:
  "pg_form (clearDraft p) = pg_form p"
  "pg_posts (clearDraft p) = pg_posts p"
  "pg_globals (clearDraft p) = pg_globals p"
  by (simp_all add: clearDraft_def)

lemma handleSuccessfulSubmission_posts:
  "pg_posts (snd (handleSuccessfulSubmission d p)) = pg_posts p"
  by (simp add: handleSuccessfulSubmission_def form_reset_def Let_def
      split: jsval.splits option.splits)

lemma receive_posts:
  "pg_posts (snd (submitForm_receive l a p)) = pg_posts p"
proof (cases a)
  case (PostRejected e)
  then show ?thesis by (simp add: submitForm_receive_def catch_keeps)
next
  case NoResponse
  then show ?thesis by (simp add: submitForm_receive_def catch_keeps)
next
  case (Response ok d err)
  show ?thesis
  proof (cases ok)
    case False
    with Response show ?thesis by (simp add: submitForm_receive_def catch_keeps)
  next
    case True
    let ?p4 = "notify ''success'' (getSuccessMessage (l_formType l))
        (set_button (\<lambda>b. b\<lparr>b_disabled := False,
             b_text := (case l_originalText l of None \<Rightarrow> [] | Some t \<Rightarrow> t)\<rparr>)
          (hideSpinner (VStr (l_loadingId l)) (clearDraft p)))"
    have q: "pg_posts ?p4 = pg_posts p"
      by (simp add: notify_keeps set_button_keeps hideSpinner_keeps clearDraft_keeps)
    obtain e p5 where hs: "handleSuccessfulSubmission d ?p4 = (e, p5)"
      by (cases "handleSuccessfulSubmission d ?p4")
    with handleSuccessfulSubmission_posts [of d ?p4] q have p5: "pg_posts p5 = pg_posts p"
      by simp
    from Response True hs p5 show ?thesis
      by (cases e) (simp_all add: submitForm_receive_def Let_def catch_keeps)
  qed
qed

lemma settle_posts: "pg_posts (snd (settle api l s p)) = pg_posts p"
  by (cases s) (simp_all add: settle_def receive_posts)

lemma receive_failure_without_global:
  assumes "pg_globals p ''loadingId'' = None"
    and "a = PostRejected e \<or> (\<exists>d err. a = Response False d err)"
  shows "submitForm_receive l a p = (Rejected (ReferenceError ''loadingId is not defined''), p)"
  using assms by (auto simp: submitForm_receive_def catch_without_global)

text \<open>A form that does not validate: the frame of the call, and its outcome on a page
  that has no global \<open>loadingId\<close>.\<close>

lemma invalid_form_frame:
  assumes "\<not> isValid (fst (FormHandler_validateForm h (pg_form p)))"
  shows "pg_posts (snd (submitForm h api up opt p)) = pg_posts p \<and>
         pg_uploads (snd (submitForm h api up opt p)) = pg_uploads p \<and>
         pg_focus (snd (submitForm h api up opt p)) = pg_focus p"
proof -
  let ?l = "fst (submitForm_enter opt p)" and ?p1 = "snd (submitForm_enter opt p)"
  from assms validateForm_reads_fields [OF enter_keeps(1), of h opt p]
  have nv: "\<not> isValid (fst (FormHandler_validateForm h (pg_form ?p1)))" by simp
  from send_invalid [OF nv, of api up ?l]
  obtain out where
    s: "fst (submitForm_send h api up ?l ?p1) = Settled out"
    and k: "pg_posts (snd (submitForm_send h api up ?l ?p1)) = pg_posts ?p1"
      "pg_uploads (snd (submitForm_send h api up ?l ?p1)) = pg_uploads ?p1"
      "pg_focus (snd (submitForm_send h api up ?l ?p1)) = pg_focus ?p1"
    by blast
  have "submitForm h api up opt p =
      settle api ?l (fst (submitForm_send h api up ?l ?p1)) (snd (submitForm_send h api up ?l ?p1))"
    by (simp add: submitForm_def split_beta)
  with s have "snd (submitForm h api up opt p) = snd (submitForm_send h api up ?l ?p1)"
    by (simp add: settle_settled)
  with k show ?thesis by (simp add: enter_keeps)
qed

lemma invalid_form_outcome:
  assumes "\<not> isValid (fst (FormHandler_validateForm h (pg_form p)))"
    and "pg_globals p ''loadingId'' = None"
  shows "fst (submitForm h api up opt p) = Rejected (ReferenceError ''loadingId is not defined'')"
proof -
  let ?l = "fst (submitForm_enter opt p)" and ?p1 = "snd (submitForm_enter opt p)"
  from assms(1) validateForm_reads_fields [OF enter_keeps(1), of h opt p]
  have nv: "\<not> isValid (fst (FormHandler_validateForm h (pg_form ?p1)))" by simp
  from assms(2) have g: "pg_globals (?p1\<lparr>pg_form := fm\<rparr>) ''loadingId'' = None" for fm
    by (simp add: enter_keeps)
  from send_invalid [OF nv, of api up ?l] catch_without_global [OF g]
  have s: "fst (submitForm_send h api up ?l ?p1) =
      Settled (Rejected (ReferenceError ''loadingId is not defined''))" by simp
  have "submitForm h api up opt p =
      settle api ?l (fst (submitForm_send h api up ?l ?p1)) (snd (submitForm_send h api up ?l ?p1))"
    by (simp add: submitForm_def split_beta)
  with s show ?thesis by (simp add: settle_settled)
qed

text \<open>A form that validates, with no file to upload, whose backend call fails.\<close>

lemma failed_submission:
  assumes valid: "isValid (fst (FormHandler_validateForm h (pg_form p)))"
    and nocsv: "formType_or_generic (pg_form p) \<noteq> ''pharmacyCSV''"
    and nofiles: "\<forall>f \<in> set (fm_fields (pg_form p)). is_file_input f \<longrightarrow> f_files f = []"
    and noglobal: "pg_globals p ''loadingId'' = None"
    and fails: "\<And>i e d. api i e d = PostRejected err \<or> (\<exists>x m. api i e d = Response False x m)"
  shows "fst (submitForm h api up opt p) = Rejected (ReferenceError ''loadingId is not defined'') \<and>
         fm_button (pg_form (snd (submitForm h api up opt p))) =
           map_option (\<lambda>b. b\<lparr>b_disabled := True, b_text := ''Submitting...''\<rparr>)
             (fm_button (pg_form p)) \<and>
         pg_notifications (snd (submitForm h api up opt p)) = pg_notifications p \<and>
         pg_storage (snd (submitForm h api up opt p)) = pg_storage p \<and>
         length (pg_posts (snd (submitForm h api up opt p))) = length (pg_posts p) + 1"
proof -
  let ?l = "fst (submitForm_enter opt p)" and ?p1 = "snd (submitForm_enter opt p)"
  from valid validateForm_reads_fields [OF enter_keeps(1), of h opt p]
  have v: "isValid (fst (FormHandler_validateForm h (pg_form ?p1)))" by simp
  from nocsv have c: "l_formType ?l \<noteq> ''pharmacyCSV''" by (simp add: enter_keeps)
  from nofiles have n: "\<forall>f \<in> set (fm_fields (pg_form ?p1)). is_file_input f \<longrightarrow> f_files f = []"
    by (simp add: enter_keeps)
  let ?d = "prepareFormData ?p1 False"
  let ?p2 = "?p1\<lparr>pg_form := snd (FormHandler_validateForm h (pg_form ?p1)),
      pg_posts := pg_posts ?p1 @ [(l_endpoint ?l, ?d)]\<rparr>"
  have s: "submitForm_send h api up ?l ?p1 = (Posting (length (pg_posts ?p1)) (l_endpoint ?l) ?d, ?p2)"
    by (rule send_valid [OF v c n])
  from noglobal have g: "pg_globals ?p2 ''loadingId'' = None" by (simp add: enter_keeps)
  have r: "submitForm_receive ?l (api (length (pg_posts ?p1)) (l_endpoint ?l) ?d) ?p2 =
      (Rejected (ReferenceError ''loadingId is not defined''), ?p2)"
    by (rule receive_failure_without_global [OF g]) (use fails in blast)
  have "submitForm h api up opt p = settle api ?l (Posting (length (pg_posts ?p1)) (l_endpoint ?l) ?d) ?p2"
    by (simp add: submitForm_def split_beta s)
  with r have e: "submitForm h api up opt p =
      (Rejected (ReferenceError ''loadingId is not defined''), ?p2)"
    by (simp add: settle_posting)
  show ?thesis
    by (simp add: e enter_keeps validateForm_keeps)
qed

text \<open>Two submit events in one tick on a form that validates.\<close>

lemma submit_twice_posts:
  assumes valid: "isValid (fst (FormHandler_validateForm h (pg_form p)))"
    and nocsv: "formType_or_generic (pg_form p) \<noteq> ''pharmacyCSV''"
    and nofiles: "\<forall>f \<in> set (fm_fields (pg_form p)). is_file_input f \<longrightarrow> f_files f = []"
  shows "length (pg_posts (snd (submit_twice h api up p))) = length (pg_posts p) + 2"
proof -
  let ?l1 = "fst (submitForm_enter None p)" and ?p1 = "snd (submitForm_enter None p)"
  let ?l2 = "fst (submitForm_enter None ?p1)" and ?p2 = "snd (submitForm_enter None ?p1)"
  have f2: "fm_fields (pg_form ?p2) = fm_fields (pg_form p)" by (simp add: enter_keeps)
  from valid validateForm_reads_fields [OF f2, of h]
  have v2: "isValid (fst (FormHandler_validateForm h (pg_form ?p2)))" by simp
  from nocsv have c1: "l_formType ?l1 \<noteq> ''pharmacyCSV''" by (simp add: enter_keeps)
  from nocsv have c2: "l_formType ?l2 \<noteq> ''pharmacyCSV''"
    by (simp add: enter_keeps formType_or_generic_def)
  from nofiles f2
  have n2: "\<forall>f \<in> set (fm_fields (pg_form ?p2)). is_file_input f \<longrightarrow> f_files f = []" by simp
  let ?d1 = "prepareFormData ?p2 False"
  let ?s1 = "Posting (length (pg_posts ?p2)) (l_endpoint ?l1) ?d1"
  let ?p3 = "?p2\<lparr>pg_form := snd (FormHandler_validateForm h (pg_form ?p2)),
      pg_posts := pg_posts ?p2 @ [(l_endpoint ?l1, ?d1)]\<rparr>"
  have s1: "submitForm_send h api up ?l1 ?p2 = (?s1, ?p3)"
    by (rule send_valid [OF v2 c1 n2])
  have f3: "same_inputs (fm_fields (pg_form ?p3)) (fm_fields (pg_form ?p2))"
    by (simp add: validateForm_keeps)
  from v2 validateForm_reads [OF f3, of h]
  have v3: "isValid (fst (FormHandler_validateForm h (pg_form ?p3)))" by simp
  from n2
  have n3: "\<forall>f \<in> set (fm_fields (pg_form ?p3)). is_file_input f \<longrightarrow> f_files f = []"
    by (rule no_files_reads [OF f3])
  let ?d2 = "prepareFormData ?p3 False"
  let ?s2 = "Posting (length (pg_posts ?p3)) (l_endpoint ?l2) ?d2"
  let ?p4 = "?p3\<lparr>pg_form := snd (FormHandler_validateForm h (pg_form ?p3)),
      pg_posts := pg_posts ?p3 @ [(l_endpoint ?l2, ?d2)]\<rparr>"
  have s2: "submitForm_send h api up ?l2 ?p3 = (?s2, ?p4)"
    by (rule send_valid [OF v3 c2 n3])
  let ?p5 = "snd (settle api ?l1 ?s1 ?p4)"
  let ?p6 = "snd (settle api ?l2 ?s2 ?p5)"
  have t: "snd (submit_twice h api up p) = ?p6"
    by (simp add: submit_twice_def split_beta s1 s2)
  have "pg_posts ?p6 = pg_posts ?p4" by (simp add: settle_posts)
  moreover have "length (pg_posts ?p4) = length (pg_posts p) + 2" by (simp add: enter_keeps)
  ultimately show ?thesis by (simp add: t)
qed

lemma valid_page_facts:
  "isValid (fst (FormHandler_validateForm example_host (pg_form valid_page)))"
  "formType_or_generic (pg_form valid_page) \<noteq> ''pharmacyCSV''"
  "\<forall>f \<in> set (fm_fields (pg_form valid_page)). is_file_input f \<longrightarrow> f_files f = []"
  by code_simp+

lemma example_page_initial:
  "pg_globals (example_page t flds) ''loadingId'' = None"
  "pg_posts (example_page t flds) = []"
  "pg_uploads (example_page t flds) = []"
  "pg_notifications (example_page t flds) = []"
  "pg_focus (example_page t flds) = None"
  "fm_button (pg_form (example_page t flds)) = Some \<lparr>b_disabled = False, b_text = ''Save''\<rparr>"
  "fm_fields (pg_form (example_page t flds)) = flds"
  by (simp_all add: example_page_def)

lemma invalid_page_facts:
  "\<not> isValid (fst (FormHandler_validateForm example_host (pg_form invalid_page)))"
  by code_simp

text \<open>The two inputs of that form share their parent, and with it one feedback node.\<close>

lemma invalid_page_display:
  "fm_layout (snd (FormHandler_validateForm example_host (pg_form invalid_page))) =
     [Ctl 0, Ctl 1, Feedback ''bed is required'']"
  by code_simp

text \<open>
  C7 does not hold of the code. The claim: whenever a submission fails after validation,
  \<open>submitForm\<close> re-enables the submit control with its original label, surfaces the error
  through the notification layer and leaves the saved draft alone. The \<open>catch\<close> block
  contains these statements, but it reads \<open>loadingId\<close> and \<open>originalText\<close>, constants
  of the \<open>try\<close> block, and so throws a ReferenceError first. On a valid form whose
  backend call is refused, the promise rejects, the button stays disabled with the label
  \<open>Submitting...\<close> and no notification is shown; the draft is indeed left in storage.
\<close>

theorem failed_submission_C7_evaluation:
  "fst (submitForm example_host backend_down upload_ok None valid_page) =
     Rejected (ReferenceError ''loadingId is not defined'') \<and>
   fm_button (pg_form (snd (submitForm example_host backend_down upload_ok None valid_page))) =
     Some \<lparr>b_disabled = True, b_text = ''Submitting...''\<rparr> \<and>
   pg_notifications (snd (submitForm example_host backend_down upload_ok None valid_page)) = [] \<and>
   pg_storage (snd (submitForm example_host backend_down upload_ok None valid_page)) =
     pg_storage valid_page"
proof -
  have g: "pg_globals valid_page ''loadingId'' = None"
    by (simp add: valid_page_def example_page_initial)
  have f: "backend_down i e d = PostRejected (Error []) \<or>
      (\<exists>x m. backend_down i e d = Response False x m)" for i e d
    by (simp add: backend_down_def)
  from failed_submission [OF valid_page_facts g f, where up = upload_ok and opt = None]
  show ?thesis by (simp add: valid_page_def example_page_initial)
qed

text \<open>
  C1, as stated, fails: on a form with two required fields left empty, \<open>submitForm\<close>
  focuses no field, and its promise rejects instead of resolving to a failure result.
\<close>

theorem invalid_form_C1_counterexample:
  "\<not> isValid (fst (FormHandler_validateForm example_host (pg_form invalid_page))) \<and>
   pg_focus (snd (submitForm example_host backend_ok upload_ok None invalid_page)) = None \<and>
   fst (submitForm example_host backend_ok upload_ok None invalid_page) =
     Rejected (ReferenceError ''loadingId is not defined'')"
proof -
  have g: "pg_globals invalid_page ''loadingId'' = None"
    by (simp add: invalid_page_def example_page_initial)
  from invalid_form_frame [OF invalid_page_facts, of backend_ok upload_ok None]
    invalid_form_outcome [OF invalid_page_facts g, of backend_ok upload_ok None]
    invalid_page_facts
  show ?thesis by (simp add: invalid_page_def example_page_initial)
qed

text \<open>
  C1, amended: for every form on which \<open>validateForm\<close> returns a result with
  \<open>isValid = false\<close>, \<open>submitForm\<close> makes no backend call and uploads no file, and it
  leaves the focus where it was.
\<close>

theorem invalid_form_C1_amended:
  assumes "\<not> isValid (fst (FormHandler_validateForm h (pg_form p)))"
  shows "pg_posts (snd (submitForm h api up opt p)) = pg_posts p \<and>
         pg_uploads (snd (submitForm h api up opt p)) = pg_uploads p \<and>
         pg_focus (snd (submitForm h api up opt p)) = pg_focus p"
  using assms by (rule invalid_form_frame)

theorem invalid_form_C1_amended_witness:
  "\<not> isValid (fst (FormHandler_validateForm example_host (pg_form invalid_page))) \<and>
   pg_posts (snd (submitForm example_host backend_ok upload_ok None invalid_page)) = [] \<and>
   pg_uploads (snd (submitForm example_host backend_ok upload_ok None invalid_page)) = [] \<and>
   pg_focus (snd (submitForm example_host backend_ok upload_ok None invalid_page)) = None"
proof -
  from invalid_form_C1_amended [OF invalid_page_facts, of backend_ok upload_ok None]
    invalid_page_facts
  show ?thesis by (simp add: invalid_page_def example_page_initial)
qed

text \<open>
  C5, as stated, fails: the submit listener calls \<open>submitForm\<close> for every submit event
  and \<open>submitForm\<close> never reads the disabled state of the control. On a valid form,
  a second submit event in the same tick, delivered while the control is disabled, leads
  to a second backend call.
\<close>

theorem submit_twice_C5_counterexample:
  "fm_button (pg_form (snd (submitForm_enter None valid_page))) =
     Some \<lparr>b_disabled = True, b_text = ''Submitting...''\<rparr> \<and>
   length (pg_posts (snd (submit_twice example_host backend_ok upload_ok valid_page))) = 2"
proof -
  from submit_twice_posts [OF valid_page_facts, of backend_ok upload_ok]
  show ?thesis by (simp add: enter_keeps valid_page_def example_page_initial)
qed

text \<open>
  C5, amended: when submit is triggered a second time within one synchronous tick, the
  first call has disabled the submit control, but the second trigger is not a no-op: on a
  form that validates (not a CSV import, no file selected) each of the two triggers makes
  its own backend call, two in total.
\<close>

theorem submit_twice_C5_amended:
  assumes "isValid (fst (FormHandler_validateForm h (pg_form p)))"
    and "formType_or_generic (pg_form p) \<noteq> ''pharmacyCSV''"
    and "\<forall>f \<in> set (fm_fields (pg_form p)). is_file_input f \<longrightarrow> f_files f = []"
  shows "fm_button (pg_form (snd (submitForm_enter None p))) =
           map_option (\<lambda>b. b\<lparr>b_disabled := True, b_text := ''Submitting...''\<rparr>)
             (fm_button (pg_form p)) \<and>
         length (pg_posts (snd (submit_twice h api up p))) = length (pg_posts p) + 2"
  using submit_twice_posts [OF assms] by (simp add: enter_keeps)

theorem submit_twice_C5_amended_witness:
  "isValid (fst (FormHandler_validateForm example_host (pg_form valid_page))) \<and>
   formType_or_generic (pg_form valid_page) \<noteq> ''pharmacyCSV'' \<and>
   map is_file_input (fm_fields (pg_form valid_page)) = [False] \<and>
   fm_button (pg_form (snd (submitForm_enter None valid_page))) =
     Some \<lparr>b_disabled = True, b_text = ''Submitting...''\<rparr> \<and>
   length (pg_posts (snd (submit_twice example_host backend_down upload_ok valid_page))) = 2"
proof -
  have n: "map is_file_input (fm_fields (pg_form valid_page)) = [False]"
    by code_simp
  from submit_twice_C5_amended [OF valid_page_facts, of backend_down upload_ok]
    valid_page_facts(1,2) n
  show ?thesis by (simp add: valid_page_def example_page_initial)
qed

subsection \<open>CSV import\<close>

lemma readCSVFile_rejects:
  "readCSVFile text =
     Inl (Error ''Failed to parse CSV file: LoadingManager.updateProgress is not a function'')"
  by (simp add: readCSVFile_def LoadingManager_updateProgress_def)

lemma handleCSVUpload_fails:
  "pg_posts (snd (handleCSVUpload h api endpoint p)) = pg_posts p \<and>
   (\<exists>e. fst (handleCSVUpload h api endpoint p) = Inl e)"
  by (simp add: handleCSVUpload_def readCSVFile_rejects split: option.splits list.splits)

lemma missing_column_reported:
  "''medicine'' \<notin> set (headers csvData) \<Longrightarrow>
   \<not> isValid (validateCSVData h csvData) \<and>
   ''Missing required column: medicine'' \<in> set (errors (validateCSVData h csvData))"
  by (simp add: validateCSVData_def requiredColumns_def Let_def)

text \<open>
  C4 does not hold of the code. The parsing statements, \<open>validateCSVData\<close> and
  \<open>parseBoolean\<close> do what the claim says: the file of the claim parses into one record,
  passes the validation and gives a payload whose availability is \<open>true\<close>. But
  \<open>readCSVFile\<close> first reports progress through \<open>LoadingManager.updateProgress\<close>, a
  method \<open>LoadingManager\<close> does not have, so its promise rejects for every file with a
  parse failure: the file never reaches the validation and no record is processed.
\<close>

theorem csv_import_C4_evaluation:
  "readCSVFile claim_csv =
     Inl (Error ''Failed to parse CSV file: LoadingManager.updateProgress is not a function'') \<and>
   parse_csv_text claim_csv =
     Inr \<lparr>headers = [''medicine'', ''availability'', ''datestocked''],
          records = [[(''medicine'', ''Aspirin''), (''availability'', ''yes''),
                      (''datestocked'', ''2024-01-01'')]]\<rparr> \<and>
   isValid (validateCSVData example_host
     \<lparr>headers = [''medicine'', ''availability'', ''datestocked''],
      records = [[(''medicine'', ''Aspirin''), (''availability'', ''yes''),
                  (''datestocked'', ''2024-01-01'')]]\<rparr>) \<and>
   csv_payload [(''medicine'', ''Aspirin''), (''availability'', ''yes''),
                (''datestocked'', ''2024-01-01'')] =
     [(''medicine'', VStr ''Aspirin''), (''availability'', VBool True),
      (''datestocked'', VStr ''2024-01-01'')] \<and>
   fst (handleCSVUpload example_host backend_ok ''/pharmacy-records''
          (example_page ''pharmacyCSV'' [csv_file_input claim_csv])) =
     Inl (Error ''Failed to parse CSV file: LoadingManager.updateProgress is not a function'') \<and>
   pg_posts (snd (handleCSVUpload example_host backend_ok ''/pharmacy-records''
          (example_page ''pharmacyCSV'' [csv_file_input claim_csv]))) = []"
proof -
  have "fst (handleCSVUpload example_host backend_ok ''/pharmacy-records''
          (example_page ''pharmacyCSV'' [csv_file_input claim_csv])) =
     Inl (Error ''Failed to parse CSV file: LoadingManager.updateProgress is not a function'')"
    by code_simp
  moreover have "pg_posts (snd (handleCSVUpload example_host backend_ok ''/pharmacy-records''
          (example_page ''pharmacyCSV'' [csv_file_input claim_csv]))) = []"
    using handleCSVUpload_fails [of example_host backend_ok "''/pharmacy-records''"
        "example_page ''pharmacyCSV'' [csv_file_input claim_csv]"]
    by (simp add: example_page_initial)
  moreover have "readCSVFile claim_csv =
     Inl (Error ''Failed to parse CSV file: LoadingManager.updateProgress is not a function'')"
    by (rule readCSVFile_rejects)
  moreover have "parse_csv_text claim_csv =
     Inr \<lparr>headers = [''medicine'', ''availability'', ''datestocked''],
          records = [[(''medicine'', ''Aspirin''), (''availability'', ''yes''),
                      (''datestocked'', ''2024-01-01'')]]\<rparr>"
    by code_simp
  moreover have "isValid (validateCSVData example_host
     \<lparr>headers = [''medicine'', ''availability'', ''datestocked''],
      records = [[(''medicine'', ''Aspirin''), (''availability'', ''yes''),
                  (''datestocked'', ''2024-01-01'')]]\<rparr>)"
    by code_simp
  moreover have "csv_payload [(''medicine'', ''Aspirin''), (''availability'', ''yes''),
                (''datestocked'', ''2024-01-01'')] =
     [(''medicine'', VStr ''Aspirin''), (''availability'', VBool True),
      (''datestocked'', VStr ''2024-01-01'')]"
    by code_simp
  ultimately show ?thesis by blast
qed


subsection \<open>Drafts\<close>

text \<open>
  C6 does not hold of the code. \<open>restoreDraft\<close> looks up the first control with the name
  of each entry and, for a radio button, sets its \<open>checked\<close> property to the saved
  value, the non-empty value string of the button that was checked. With the second
  button of a radio group checked, saving the draft and restoring it at once, without
  any edit in between, checks the first button and unchecks the second.
\<close>

theorem draft_round_trip_C6_evaluation:
  "map f_checked (fm_fields (pg_form radio_page)) = [False, True] \<and>
   map_option (\<lambda>d. get_prop (d_data d) ''sex'') (stored_draft (saveDraft radio_page)) =
     Some (Some (VStr ''female'')) \<and>
   map f_checked (fm_fields (pg_form (save_then_restore radio_page))) = [True, False] \<and>
   pg_notifications (save_then_restore radio_page) =
     [(''success'', ''Draft restored successfully'')]"
  by (intro conjI; code_simp)

end
